theory Spec2Isabelle
  imports Complex_Main
begin

section \<open>Values, errors and inputs\<close>

text \<open>
  Prices are Python floats; they are modelled as exact reals, so the theorems below speak
  about the arithmetic the code writes down, not about binary rounding. Instants
  (\<open>datetime\<close> values) are integers: microseconds since the epoch. Each handler reads the
  clock several times while it runs; the model passes one reading \<open>now\<close> per call.
\<close>

datatype py_error = ValueError | TypeError | ZeroDivisionError

text \<open>
  What a dictionary holds under a price key, seen through \<open>float(...)\<close>: a number or a
  numeric string (\<open>Num\<close>), a string that \<open>float\<close> rejects with ValueError, or another
  object that \<open>float\<close> rejects with TypeError.
\<close>

datatype pyval = Num real | BadString | BadValue

definition py_float :: "pyval \<Rightarrow> py_error + real" where
  "py_float v = (case v of Num r \<Rightarrow> Inr r | BadString \<Rightarrow> Inl ValueError | BadValue \<Rightarrow> Inl TypeError)"

text \<open>\<open>float(d.get(key, 0))\<close>: an absent key reads as 0.\<close>

definition get_float :: "pyval option \<Rightarrow> py_error + real" where
  "get_float f = (case f of None \<Rightarrow> Inr 0 | Some v \<Rightarrow> py_float v)"

text \<open>
  A tick dictionary: the keys \<open>price\<close> and \<open>p\<close>, each present or absent.
\<close>

record tick =
  tick_price :: "pyval option"
  tick_p :: "pyval option"

text \<open>
  The \<open>prediction_time\<close> entry of a prediction: absent or empty (\<open>NoTime\<close>), a string that
  \<open>datetime.fromisoformat\<close> rejects (\<open>BadTime\<close>), or a string denoting an instant (one
  written without an offset denotes the instant it names in the system's zone).
\<close>

datatype iso_time = NoTime | BadTime | Time int

record prediction =
  prediction_price :: "pyval option"
  predicted_price :: "pyval option"
  prediction_time :: iso_time

section \<open>The IPC strategy: data\<close>

datatype direction = LONG | SHORT

record config =
  instance_name :: string
  delta :: real
  initial_stop_loss_points :: real
  trailing_activation_offset :: real
  trailing_stop_distance :: real
  max_position_duration_hours :: int
  session_filter :: bool

text \<open>The dictionary \<open>active_signal\<close>.\<close>

record signal =
  direction :: direction
  entry_price :: real
  stop_loss :: real
  target :: real
  trailing_activation_price :: real
  entry_time :: int
  prediction_data :: "real \<times> real \<times> int"

text \<open>
  The dictionary \<open>strategy_state\<close>: empty before the first stamp, \<open>{seq}\<close> without a
  position, the six entries with one.
\<close>

datatype snapshot =
  Unstamped
  | Absent int
  | Full (SL: real) (TP: real) (ENTRY: real) (TSA: real) (TRAILING_STOP_ACTIVE: bool) int

fun seq_of :: "snapshot \<Rightarrow> int option" where
  "seq_of Unstamped = None"
| "seq_of (Absent n) = Some n"
| "seq_of (Full _ _ _ _ _ n) = Some n"

record ipc_state =
  event_counter :: int
  active_signal :: "signal option"
  trailing_stop_active :: bool
  peak_price :: "real option"
  strategy_state :: snapshot
  state_sequence :: int

definition init_state :: ipc_state where
  "init_state = \<lparr>event_counter = 0, active_signal = None, trailing_stop_active = False,
     peak_price = None, strategy_state = Unstamped, state_sequence = 0\<rparr>"

datatype pos_kind = OPEN | UPDATE | CLOSE

datatype reason =
  SIGNAL_DETECTED | POSITION_TIME_LIMIT_HIT | STOP_LOSS_HIT
  | TRAILING_STOP_UPDATED | TRAILING_STOP_ACTIVATED

datatype event_data =
  Open_data (signal_direction: direction) (od_entry_price: real) (od_predicted_price: real)
    (od_stop_loss_price: real) (od_trailing_activation_price: real)
  | Update_data (ud_direction: direction) (ud_entry_price: real) (ud_stop_loss_price: real)
    (ud_peak_price: real) (ud_current_price: real)
  | Time_limit_data (tl_direction: direction) (tl_entry_price: real) (tl_current_price: real)
    (tl_pnl: real) (tl_pnl_percentage: real)
  | Close_data (cd_direction: direction) (cd_entry_price: real) (cd_stop_loss_price: real)
    (cd_current_price: real) (cd_pnl: real) (cd_pnl_percentage: real)

text \<open>
  The broadcast message. \<open>event_id\<close> is instance name, event counter and the clock in
  milliseconds. The two strategies differ in the snapshot and the payload they attach.
\<close>

record ('st, 'd) event =
  event_id :: "string \<times> int \<times> int"
  event_time :: int
  position :: pos_kind
  reason :: reason
  ev_strategy_state :: 'st
  event_data :: 'd

datatype log_entry =
  Log_signal_generated direction real real real
  | Log_signal_error py_error
  | Log_time_limit direction real real
  | Log_trailing_activated real real
  | Log_closed reason direction real real real
  | Log_management_error py_error

type_synonym result = "ipc_state \<times> (snapshot, event_data) event list \<times> log_entry list"

section \<open>The IPC strategy: operations\<close>

definition update_strategy_state :: "ipc_state \<Rightarrow> ipc_state" where
  "update_strategy_state s =
     (let n = state_sequence s + 1 in
      s\<lparr>state_sequence := n,
        strategy_state :=
          (case active_signal s of
             None \<Rightarrow> Absent n
           | Some a \<Rightarrow> Full (stop_loss a) (target a) (entry_price a)
                        (trailing_activation_price a) (trailing_stop_active s) n)\<rparr>)"

definition mk_event ::
  "config \<Rightarrow> ipc_state \<Rightarrow> int \<Rightarrow> pos_kind \<Rightarrow> reason \<Rightarrow> 'd \<Rightarrow> (snapshot, 'd) event" where
  "mk_event cfg s now pos rsn d =
     \<lparr>event_id = (instance_name cfg, event_counter s, now div 1000), event_time = now,
      position = pos, reason = rsn, ev_strategy_state = strategy_state s, event_data = d\<rparr>"

text \<open>
  The time zone database is not part of the repository: \<open>tz\<close> gives the offset from UTC,
  in seconds, that America/New_York has at an instant. \<open>weekday()\<close> counts from Monday = 0;
  the epoch was a Thursday.
\<close>

definition ny_weekday :: "(int \<Rightarrow> int) \<Rightarrow> int \<Rightarrow> int" where
  "ny_weekday tz t = ((t div 1000000 + tz t) div 86400 + 3) mod 7"

definition ny_hour :: "(int \<Rightarrow> int) \<Rightarrow> int \<Rightarrow> int" where
  "ny_hour tz t = ((t div 1000000 + tz t) mod 86400) div 3600"

definition open_signal ::
  "config \<Rightarrow> ipc_state \<Rightarrow> real \<Rightarrow> real \<Rightarrow> int \<Rightarrow> real \<Rightarrow> int \<Rightarrow> result" where
  "open_signal cfg s current_price_pred predicted t current_tick_price now =
     (let price_diff = predicted - current_price_pred;
          dir = (if price_diff > 0 then LONG else SHORT);
          entry = current_tick_price;
          sl = (if dir = LONG then entry - initial_stop_loss_points cfg
                else entry + initial_stop_loss_points cfg);
          trailing_activation =
               (if dir = LONG then entry + trailing_activation_offset cfg
                else entry - trailing_activation_offset cfg);
          s1 = s\<lparr>active_signal := Some \<lparr>direction = dir, entry_price = entry, stop_loss = sl,
                    target = predicted, trailing_activation_price = trailing_activation,
                    entry_time = now, prediction_data = (current_price_pred, predicted, t)\<rparr>,
                  peak_price := Some entry, trailing_stop_active := False\<rparr>;
          s2 = s1\<lparr>event_counter := event_counter s1 + 1\<rparr>;
          s3 = update_strategy_state s2
      in (s3,
          [mk_event cfg s3 now OPEN SIGNAL_DETECTED
             (Open_data dir entry predicted sl trailing_activation)],
          [Log_signal_generated dir entry sl predicted]))"

text \<open>The body of the \<open>try\<close> block of \<open>check_signal_trigger\<close>.\<close>

definition signal_trigger_try ::
  "(int \<Rightarrow> int) \<Rightarrow> config \<Rightarrow> ipc_state \<Rightarrow> prediction \<Rightarrow> tick \<Rightarrow> int \<Rightarrow> py_error + result" where
  "signal_trigger_try tz cfg s pred tk now =
     (case get_float (prediction_price pred) of
        Inl e \<Rightarrow> Inl e
      | Inr current_price_pred \<Rightarrow>
     (case get_float (predicted_price pred) of
        Inl e \<Rightarrow> Inl e
      | Inr predicted \<Rightarrow>
     (case prediction_time pred of
        NoTime \<Rightarrow> Inr (s, [], [])
      | BadTime \<Rightarrow> Inl ValueError
      | Time t \<Rightarrow>
     (case get_float (tick_p tk) of
        Inl e \<Rightarrow> Inl e
      | Inr current_tick_price \<Rightarrow>
          if abs (predicted - current_price_pred) \<le> delta cfg then Inr (s, [], [])
          else if session_filter cfg \<and>
                  (ny_weekday tz t \<ge> 5 \<or> ny_hour tz t < 8 \<or> ny_hour tz t \<ge> 11)
               then Inr (s, [], [])
          else Inr (open_signal cfg s current_price_pred predicted t current_tick_price now)))))"

definition check_signal_trigger ::
  "(int \<Rightarrow> int) \<Rightarrow> config \<Rightarrow> ipc_state \<Rightarrow> prediction \<Rightarrow> tick \<Rightarrow> int \<Rightarrow> result" where
  "check_signal_trigger tz cfg s pred tk now =
     (if active_signal s \<noteq> None then (s, [], [])
      else case signal_trigger_try tz cfg s pred tk now of
             Inl e \<Rightarrow> (s, [], [Log_signal_error e])
           | Inr r \<Rightarrow> r)"

definition pnl_of :: "direction \<Rightarrow> real \<Rightarrow> real \<Rightarrow> real" where
  "pnl_of dir entry price = (if dir = LONG then price - entry else entry - price)"

text \<open>\<open>(pnl / entry_price) * 100\<close>; the division raises on a zero entry price.\<close>

definition pnl_pct_of :: "real \<Rightarrow> real \<Rightarrow> py_error + real" where
  "pnl_pct_of pnl entry = (if entry = 0 then Inl ZeroDivisionError else Inr (pnl / entry * 100))"

definition close_position :: "config \<Rightarrow> ipc_state \<Rightarrow> real \<Rightarrow> reason \<Rightarrow> int \<Rightarrow> py_error + result" where
  "close_position cfg s exit_price rsn now =
     (case active_signal s of
        None \<Rightarrow> Inr (s, [], [])
      | Some a \<Rightarrow>
          let pnl = pnl_of (direction a) (entry_price a) exit_price in
          (case pnl_pct_of pnl (entry_price a) of
             Inl e \<Rightarrow> Inl e
           | Inr pnl_pct \<Rightarrow>
               let s1 = s\<lparr>event_counter := event_counter s + 1\<rparr>;
                   s2 = s1\<lparr>active_signal := None, trailing_stop_active := False,
                           peak_price := None\<rparr>;
                   s3 = update_strategy_state s2
               in Inr (s3,
                       [mk_event cfg s3 now CLOSE rsn
                          (Close_data (direction a) (entry_price a) (stop_loss a) exit_price
                             pnl pnl_pct)],
                       [Log_closed rsn (direction a) exit_price pnl pnl_pct])))"

text \<open>
  The trailing stop moved to \<open>new_sl\<close> with the peak at the tick's price: the two \<open>UPDATE\<close>
  branches of each direction share this tail. The activation sets the flag and logs; on
  the update path the flag is already set, so writing it again changes nothing.
\<close>

definition trail_update ::
  "config \<Rightarrow> ipc_state \<Rightarrow> signal \<Rightarrow> real \<Rightarrow> real \<Rightarrow> reason \<Rightarrow> int \<Rightarrow> result" where
  "trail_update cfg s a current_price new_sl rsn now =
     (let s1 = s\<lparr>trailing_stop_active := True, peak_price := Some current_price,
                  active_signal := Some (a\<lparr>stop_loss := new_sl\<rparr>)\<rparr>;
          s2 = s1\<lparr>event_counter := event_counter s1 + 1\<rparr>;
          s3 = update_strategy_state s2
      in (s3,
          [mk_event cfg s3 now UPDATE rsn
             (Update_data (direction a) (entry_price a) new_sl current_price current_price)],
          (if rsn = TRAILING_STOP_ACTIVATED then [Log_trailing_activated current_price new_sl]
           else [])))"

text \<open>
  The time-limit branch of \<open>check_position_management\<close>: it clears the position and the
  trailing flag, and leaves \<open>peak_price\<close> as it is.
\<close>

definition time_limit_close ::
  "config \<Rightarrow> ipc_state \<Rightarrow> signal \<Rightarrow> real \<Rightarrow> int \<Rightarrow> py_error + result" where
  "time_limit_close cfg s a current_price now =
     (let pnl = pnl_of (direction a) (entry_price a) current_price in
      case pnl_pct_of pnl (entry_price a) of
        Inl e \<Rightarrow> Inl e
      | Inr pnl_pct \<Rightarrow>
          let s1 = s\<lparr>event_counter := event_counter s + 1\<rparr>;
              s2 = s1\<lparr>active_signal := None, trailing_stop_active := False\<rparr>;
              s3 = update_strategy_state s2
          in Inr (s3,
                  [mk_event cfg s3 now CLOSE POSITION_TIME_LIMIT_HIT
                     (Time_limit_data (direction a) (entry_price a) current_price pnl pnl_pct)],
                  [Log_time_limit (direction a) pnl pnl_pct]))"

text \<open>The body of the \<open>try\<close> block of \<open>check_position_management\<close>, for the position \<open>a\<close>.\<close>

definition position_management_try ::
  "config \<Rightarrow> ipc_state \<Rightarrow> signal \<Rightarrow> tick \<Rightarrow> int \<Rightarrow> py_error + result" where
  "position_management_try cfg s a tk now =
     (case get_float (tick_p tk) of
        Inl e \<Rightarrow> Inl e
      | Inr current_price \<Rightarrow>
          if now - entry_time a > max_position_duration_hours cfg * 3600000000
          then time_limit_close cfg s a current_price now
          else if direction a = LONG then
            (if current_price \<le> stop_loss a
             then close_position cfg s current_price STOP_LOSS_HIT now
             else if trailing_stop_active s then
               (case peak_price s of
                  None \<Rightarrow> Inl TypeError
                | Some pk \<Rightarrow>
                    if current_price > pk
                    then Inr (trail_update cfg s a current_price
                                (current_price - trailing_stop_distance cfg)
                                TRAILING_STOP_UPDATED now)
                    else Inr (s, [], []))
             else if current_price \<ge> trailing_activation_price a
             then Inr (trail_update cfg s a current_price
                         (current_price - trailing_stop_distance cfg)
                         TRAILING_STOP_ACTIVATED now)
             else Inr (s, [], []))
          else
            (if current_price \<ge> stop_loss a
             then close_position cfg s current_price STOP_LOSS_HIT now
             else if trailing_stop_active s then
               (case peak_price s of
                  None \<Rightarrow> Inl TypeError
                | Some pk \<Rightarrow>
                    if current_price < pk
                    then Inr (trail_update cfg s a current_price
                                (current_price + trailing_stop_distance cfg)
                                TRAILING_STOP_UPDATED now)
                    else Inr (s, [], []))
             else if current_price \<le> trailing_activation_price a
             then Inr (trail_update cfg s a current_price
                         (current_price + trailing_stop_distance cfg)
                         TRAILING_STOP_ACTIVATED now)
             else Inr (s, [], [])))"

definition check_position_management :: "config \<Rightarrow> ipc_state \<Rightarrow> tick \<Rightarrow> int \<Rightarrow> result" where
  "check_position_management cfg s tk now =
     (case active_signal s of
        None \<Rightarrow> (s, [], [])
      | Some a \<Rightarrow>
          (case position_management_try cfg s a tk now of
             Inl e \<Rightarrow> (s, [], [Log_management_error e])
           | Inr r \<Rightarrow> r))"

definition get_strategy_state :: "ipc_state \<Rightarrow> snapshot" where
  "get_strategy_state s = strategy_state s"

text \<open>
  The server hands every tick to \<open>check_position_management\<close> and every two-hour
  prediction, with the latest tick, to \<open>check_signal_trigger\<close>. A run processes a list of
  such inputs in order and collects the events broadcast on the way.
\<close>

datatype input = Tick_in tick int | Prediction_in prediction tick int

definition step :: "(int \<Rightarrow> int) \<Rightarrow> config \<Rightarrow> ipc_state \<Rightarrow> input \<Rightarrow> result" where
  "step tz cfg s i =
     (case i of
        Tick_in tk now \<Rightarrow> check_position_management cfg s tk now
      | Prediction_in pred tk now \<Rightarrow> check_signal_trigger tz cfg s pred tk now)"

fun run ::
  "(int \<Rightarrow> int) \<Rightarrow> config \<Rightarrow> ipc_state \<Rightarrow> input list \<Rightarrow> ipc_state \<times> (snapshot, event_data) event list" where
  "run tz cfg s [] = (s, [])"
| "run tz cfg s (i # rest) =
     (case step tz cfg s i of
        (s1, evs, logs) \<Rightarrow> (case run tz cfg s1 rest of (s2, evs2) \<Rightarrow> (s2, evs @ evs2)))"

text \<open>
  A trace of event kinds in which no \<open>OPEN\<close> follows another without a \<open>CLOSE\<close> between
  them; the flag says whether a position is open before the trace starts.
\<close>

fun no_two_opens :: "bool \<Rightarrow> pos_kind list \<Rightarrow> bool" where
  "no_two_opens b [] = True"
| "no_two_opens b (OPEN # ks) = (\<not> b \<and> no_two_opens True ks)"
| "no_two_opens b (CLOSE # ks) = no_two_opens False ks"
| "no_two_opens b (UPDATE # ks) = no_two_opens b ks"

text \<open>
  Every snapshot of the list is stamped, the first above \<open>n\<close> and each one above the one
  before it; \<open>sq\<close> reads a snapshot's \<open>seq\<close> entry.
\<close>

fun seqs_increase :: "('st \<Rightarrow> int option) \<Rightarrow> int \<Rightarrow> 'st list \<Rightarrow> bool" where
  "seqs_increase sq n [] = True"
| "seqs_increase sq n (x # xs) =
     (case sq x of None \<Rightarrow> False | Some m \<Rightarrow> n < m \<and> seqs_increase sq m xs)"

text \<open>
  What the server publishes. Besides the strategy's events, its heartbeat loop sends
  \<open>get_strategy_state()\<close> every five seconds (\<open>IPCStrategy\<close> has no
  \<open>should_suppress_heartbeat\<close>, so no heartbeat is skipped). \<open>published\<close> lists the
  snapshots sent, in order, along a list of strategy inputs and heartbeats.
\<close>

datatype server_input = Strategy_in input | Heartbeat_in

fun published ::
  "(int \<Rightarrow> int) \<Rightarrow> config \<Rightarrow> ipc_state \<Rightarrow> server_input list \<Rightarrow> snapshot list" where
  "published tz cfg s [] = []"
| "published tz cfg s (Strategy_in i # rest) =
     (case step tz cfg s i of
        (s1, evs, logs) \<Rightarrow> map ev_strategy_state evs @ published tz cfg s1 rest)"
| "published tz cfg s (Heartbeat_in # rest) = get_strategy_state s # published tz cfg s rest"

text \<open>
  The stamped snapshots of the list never go down, the first not below \<open>n\<close>; snapshots
  without a \<open>seq\<close> entry are passed over.
\<close>

fun seqs_nondecrease :: "('st \<Rightarrow> int option) \<Rightarrow> int \<Rightarrow> 'st list \<Rightarrow> bool" where
  "seqs_nondecrease sq n [] = True"
| "seqs_nondecrease sq n (x # xs) =
     (case sq x of
        None \<Rightarrow> seqs_nondecrease sq n xs
      | Some m \<Rightarrow> n \<le> m \<and> seqs_nondecrease sq m xs)"

text \<open>The current snapshot is the empty one or carries the current sequence number.\<close>

definition stamp_ok :: "ipc_state \<Rightarrow> bool" where
  "stamp_ok s =
     (strategy_state s = Unstamped \<or> seq_of (strategy_state s) = Some (state_sequence s))"

text \<open>
  What one handler call may do to the state, as one of three shapes: nothing (and no event);
  one stamped event of the given kind, with the sequence number one higher and the position
  present or absent afterwards as \<open>pos\<close> says.
\<close>

definition stamped :: "ipc_state \<Rightarrow> ipc_state \<Rightarrow> (snapshot, event_data) event list \<Rightarrow> pos_kind \<Rightarrow> bool" where
  "stamped s s' evs k =
     (state_sequence s' = state_sequence s + 1 \<and>
      seq_of (strategy_state s') = Some (state_sequence s + 1) \<and>
      (case evs of
         [e] \<Rightarrow> position e = k \<and> ev_strategy_state e = strategy_state s'
       | _ \<Rightarrow> False))"

definition step_outcome :: "ipc_state \<Rightarrow> result \<Rightarrow> bool" where
  "step_outcome s r =
     (case r of (s', evs, logs) \<Rightarrow>
        (s' = s \<and> evs = []) \<or>
        (active_signal s = None \<and> active_signal s' \<noteq> None \<and> \<not> trailing_stop_active s' \<and>
           stamped s s' evs OPEN) \<or>
        (active_signal s \<noteq> None \<and> active_signal s' = None \<and> \<not> trailing_stop_active s' \<and>
           stamped s s' evs CLOSE) \<or>
        (active_signal s \<noteq> None \<and> active_signal s' \<noteq> None \<and> trailing_stop_active s' \<and>
           stamped s s' evs UPDATE))"

text \<open>
  With the trailing stop armed, the stop sits at the trailing distance behind the peak.
\<close>

definition trailing_inv :: "config \<Rightarrow> ipc_state \<Rightarrow> bool" where
  "trailing_inv cfg s =
     (case active_signal s of
        None \<Rightarrow> True
      | Some a \<Rightarrow>
          trailing_stop_active s \<longrightarrow>
            (case peak_price s of
               None \<Rightarrow> False
             | Some pk \<Rightarrow>
                 stop_loss a = (if direction a = LONG then pk - trailing_stop_distance cfg
                                else pk + trailing_stop_distance cfg)))"

text \<open>The configuration and inputs of the end-to-end scenario.\<close>

definition scenario_config :: config where
  "scenario_config = \<lparr>instance_name = ''IPC'', delta = 500, initial_stop_loss_points = 2000,
     trailing_activation_offset = 1000, trailing_stop_distance = 900,
     max_position_duration_hours = 2, session_filter = False\<rparr>"

definition price_tick :: "real \<Rightarrow> tick" where
  "price_tick r = \<lparr>tick_price = None, tick_p = Some (Num r)\<rparr>"

definition scenario_prediction :: "int \<Rightarrow> prediction" where
  "scenario_prediction t = \<lparr>prediction_price = Some (Num 100000),
     predicted_price = Some (Num 100700), prediction_time = Time t\<rparr>"

text \<open>
  Two states of the scenario: after the prediction and the tick at 101000 (the trailing stop
  armed at 100100), and after a further tick at 102000.
\<close>

definition armed_inputs :: "input list" where
  "armed_inputs = [Prediction_in (scenario_prediction 0) (price_tick 100000) 0,
                   Tick_in (price_tick 101000) 60000000]"

definition armed_state :: ipc_state where
  "armed_state = fst (run (\<lambda>_. - 18000) scenario_config init_state armed_inputs)"

definition raised_state :: ipc_state where
  "raised_state =
     fst (check_position_management scenario_config armed_state (price_tick 102000) 120000000)"

text \<open>
  Seconds since local midnight in New York; \<open>ny_hour\<close> is its whole hours. \<open>est\<close> is the
  offset New York keeps in winter, used for the dated examples below (6 January 2025 was a
  Monday, 11 January a Saturday).
\<close>

definition ny_time_of_day :: "(int \<Rightarrow> int) \<Rightarrow> int \<Rightarrow> int" where
  "ny_time_of_day tz t = (t div 1000000 + tz t) mod 86400"

definition est :: "int \<Rightarrow> int" where
  "est t = - 18000"

definition session_config :: config where
  "session_config = scenario_config\<lparr>session_filter := True\<rparr>"

definition prediction_at :: "real \<Rightarrow> real \<Rightarrow> int \<Rightarrow> prediction" where
  "prediction_at a b t = \<lparr>prediction_price = Some (Num a), predicted_price = Some (Num b),
     prediction_time = Time t\<rparr>"

definition no_price_tick :: tick where
  "no_price_tick = \<lparr>tick_price = None, tick_p = None\<rparr>"

definition bad_price_tick :: tick where
  "bad_price_tick = \<lparr>tick_price = None, tick_p = Some BadString\<rparr>"

section \<open>The test strategy\<close>

text \<open>
  \<open>SimpleTestStrategy\<close>. Its asynchronous sequencing (start, the sleeps, the simulated price
  path, stop) is not modelled: the steps of that sequence are the operations below, each
  called with the clock reading at which it runs. The constructor's \<open>direction\<close> is
  \<open>"LONG"\<close> or anything else, which the code treats as SHORT. Fields and methods whose
  names the IPC strategy already uses carry the prefix \<open>t_\<close>.
\<close>

record test_config =
  t_instance_name :: string
  t_initial_stop_loss_points :: real
  t_trailing_activation_offset :: real
  t_trailing_stop_distance :: real
  t_direction :: direction
  simulate_offline :: bool
  offline_start_delay :: real
  offline_duration :: real

text \<open>
  The test strategy's \<open>strategy_state\<close>: its entries copy fields that may hold \<open>None\<close>; the
  entry price is present and non-zero whenever the full form is built.
\<close>

datatype test_snapshot =
  T_unstamped
  | T_absent int
  | T_full "real option" "real option" real "real option" bool int

fun t_seq_of :: "test_snapshot \<Rightarrow> int option" where
  "t_seq_of T_unstamped = None"
| "t_seq_of (T_absent n) = Some n"
| "t_seq_of (T_full _ _ _ _ _ n) = Some n"

record test_state =
  t_event_counter :: int
  t_entry_time :: "int option"
  t_entry_price :: "real option"
  current_price :: "real option"
  stop_loss_price :: "real option"
  target_price :: "real option"
  t_trailing_activation_price :: "real option"
  t_trailing_stop_active :: bool
  t_peak_price :: "real option"
  t_strategy_state :: test_snapshot
  t_state_sequence :: int
  offline_frozen_state :: "test_snapshot option"
  logged_offline_start :: bool
  logged_suppression :: bool

definition test_init :: test_state where
  "test_init = \<lparr>t_event_counter = 0, t_entry_time = None, t_entry_price = None,
     current_price = None, stop_loss_price = None, target_price = None,
     t_trailing_activation_price = None, t_trailing_stop_active = False, t_peak_price = None,
     t_strategy_state = T_unstamped, t_state_sequence = 0, offline_frozen_state = None,
     logged_offline_start = False, logged_suppression = False\<rparr>"

datatype test_event_data =
  T_open_data direction "real option" "real option" "real option"
  | T_update_data direction "real option" "real option" "real option" real
  | T_close_data direction "real option" real real real

datatype test_log =
  T_log_offline_entered real
  | T_log_suppressing_heartbeat
  | T_log_freezing "int option"
  | T_log_back_online int
  | T_log_entered direction real real real real
  | T_log_time_limit_exit real real real
  | T_log_first_tick real
  | T_log_parse_failed py_error
  | T_log_trailing reason real real
  | T_log_broadcast_suppressed reason

type_synonym test_result =
  "test_state \<times> (test_snapshot, test_event_data) event list \<times> test_log list"

text \<open>Python's \<open>not x\<close> for an optional float: \<open>None\<close> and \<open>0.0\<close> are both false.\<close>

definition falsy :: "real option \<Rightarrow> bool" where
  "falsy x = (x = None \<or> x = Some 0)"

text \<open>
  \<open>_is_in_offline_window\<close>: the answer, and the state with the debug flag it may set.
  \<open>total_seconds()\<close> of a difference of instants is its microseconds over a million.
\<close>

definition is_in_offline_window ::
  "test_config \<Rightarrow> test_state \<Rightarrow> int \<Rightarrow> bool \<times> test_state \<times> test_log list" where
  "is_in_offline_window cfg s now =
     (if \<not> simulate_offline cfg then (False, s, [])
      else case t_entry_time s of
        None \<Rightarrow> (False, s, [])
      | Some et \<Rightarrow>
          let time_since_entry = real_of_int (now - et) / 1000000;
              offline_start = offline_start_delay cfg;
              offline_end = offline_start_delay cfg + offline_duration cfg;
              is_offline = (offline_start \<le> time_since_entry \<and> time_since_entry < offline_end)
          in if is_offline \<and> \<not> logged_offline_start s
             then (is_offline, s\<lparr>logged_offline_start := True\<rparr>,
                   [T_log_offline_entered time_since_entry])
             else (is_offline, s, []))"

definition t_update_strategy_state :: "test_state \<Rightarrow> test_state" where
  "t_update_strategy_state s =
     (let n = t_state_sequence s + 1 in
      s\<lparr>t_state_sequence := n,
        t_strategy_state :=
          (case t_entry_price s of
             None \<Rightarrow> T_absent n
           | Some e \<Rightarrow>
               if e = 0 then T_absent n
               else T_full (stop_loss_price s) (target_price s) e
                      (t_trailing_activation_price s) (t_trailing_stop_active s) n)\<rparr>)"

definition t_mk_event ::
  "test_config \<Rightarrow> test_state \<Rightarrow> int \<Rightarrow> pos_kind \<Rightarrow> reason \<Rightarrow> 'd \<Rightarrow> (test_snapshot, 'd) event" where
  "t_mk_event cfg s now pos rsn d =
     \<lparr>event_id = (t_instance_name cfg, t_event_counter s, now div 1000), event_time = now,
      position = pos, reason = rsn, ev_strategy_state = t_strategy_state s, event_data = d\<rparr>"

definition reset_strategy_state :: "test_state \<Rightarrow> test_state" where
  "reset_strategy_state s =
     t_update_strategy_state
       (s\<lparr>t_entry_time := None, t_entry_price := None, stop_loss_price := None,
          target_price := None, t_trailing_activation_price := None,
          t_trailing_stop_active := False, t_peak_price := None,
          offline_frozen_state := None, logged_offline_start := False,
          logged_suppression := False\<rparr>)"

definition enter_trade :: "test_config \<Rightarrow> test_state \<Rightarrow> int \<Rightarrow> test_result" where
  "enter_trade cfg s now =
     (let entry = (case current_price s of None \<Rightarrow> 50000 | Some c \<Rightarrow> c);
          sl = (if t_direction cfg = LONG then entry - t_initial_stop_loss_points cfg
                else entry + t_initial_stop_loss_points cfg);
          tp = (if t_direction cfg = LONG then entry + t_initial_stop_loss_points cfg
                else entry - t_initial_stop_loss_points cfg);
          tsa = (if t_direction cfg = LONG then entry + t_trailing_activation_offset cfg
                 else entry - t_trailing_activation_offset cfg);
          s1 = s\<lparr>t_entry_time := Some now, t_entry_price := Some entry,
                  stop_loss_price := Some sl, target_price := Some tp,
                  t_trailing_activation_price := Some tsa,
                  t_trailing_stop_active := False, t_peak_price := Some entry\<rparr>;
          s2 = s1\<lparr>t_event_counter := t_event_counter s1 + 1\<rparr>;
          s3 = t_update_strategy_state s2
      in (s3,
          [t_mk_event cfg s3 now OPEN SIGNAL_DETECTED
             (T_open_data (t_direction cfg) (t_entry_price s3) (target_price s3)
                (stop_loss_price s3))],
          [T_log_entered (t_direction cfg) entry sl tp tsa]))"

definition calculate_pnl :: "test_config \<Rightarrow> test_state \<Rightarrow> real \<Rightarrow> real" where
  "calculate_pnl cfg s price =
     (case t_entry_price s of
        None \<Rightarrow> 0
      | Some e \<Rightarrow>
          if e = 0 then 0
          else if t_direction cfg = LONG then price - e else e - price)"

text \<open>
  \<open>_exit_trade_time_limit\<close>. The payload's \<open>entry_price\<close> is read after the reset, so it is
  \<open>None\<close>.
\<close>

definition exit_trade_time_limit :: "test_config \<Rightarrow> test_state \<Rightarrow> int \<Rightarrow> test_result" where
  "exit_trade_time_limit cfg s now =
     (case t_entry_price s of
        None \<Rightarrow> (s, [], [])
      | Some e \<Rightarrow>
          if t_entry_time s = None \<or> e = 0 then (s, [], [])
          else
            let price = (case current_price s of None \<Rightarrow> e | Some c \<Rightarrow> c);
                pnl = calculate_pnl cfg s price;
                pnl_percentage = pnl / e * 100;
                s1 = s\<lparr>t_event_counter := t_event_counter s + 1\<rparr>;
                s2 = reset_strategy_state s1
            in (s2,
                [t_mk_event cfg s2 now CLOSE POSITION_TIME_LIMIT_HIT
                   (T_close_data (t_direction cfg) (t_entry_price s2) price pnl pnl_percentage)],
                [T_log_time_limit_exit price pnl pnl_percentage]))"

definition should_suppress_heartbeat ::
  "test_config \<Rightarrow> test_state \<Rightarrow> int \<Rightarrow> bool \<times> test_state \<times> test_log list" where
  "should_suppress_heartbeat cfg s now =
     (case is_in_offline_window cfg s now of
        (is_suppressed, s1, l1) \<Rightarrow>
          if is_suppressed \<and> \<not> logged_suppression s1
          then (is_suppressed, s1\<lparr>logged_suppression := True\<rparr>,
                l1 @ [T_log_suppressing_heartbeat])
          else (is_suppressed, s1, l1))"

definition t_get_strategy_state ::
  "test_config \<Rightarrow> test_state \<Rightarrow> int \<Rightarrow> test_snapshot \<times> test_state \<times> test_log list" where
  "t_get_strategy_state cfg s now =
     (case is_in_offline_window cfg s now of
        (in_offline, s1, l1) \<Rightarrow>
          if in_offline then
            (case offline_frozen_state s1 of
               None \<Rightarrow>
                 (t_strategy_state s1,
                  s1\<lparr>offline_frozen_state := Some (t_strategy_state s1)\<rparr>,
                  l1 @ [T_log_freezing (t_seq_of (t_strategy_state s1))])
             | Some frozen \<Rightarrow> (frozen, s1, l1))
          else if offline_frozen_state s1 \<noteq> None
          then (t_strategy_state s1, s1\<lparr>offline_frozen_state := None\<rparr>,
                l1 @ [T_log_back_online (t_state_sequence s1)])
          else (t_strategy_state s1, s1, l1))"

definition broadcast_trailing_stop_update ::
  "test_config \<Rightarrow> test_state \<Rightarrow> real \<Rightarrow> reason \<Rightarrow> int \<Rightarrow> test_result" where
  "broadcast_trailing_stop_update cfg s price rsn now =
     (let s1 = t_update_strategy_state s in
      case is_in_offline_window cfg s1 now of
        (offline, s2, l2) \<Rightarrow>
          if offline then (s2, [], l2 @ [T_log_broadcast_suppressed rsn])
          else
            let s3 = s2\<lparr>t_event_counter := t_event_counter s2 + 1\<rparr>
            in (s3,
                [t_mk_event cfg s3 now UPDATE rsn
                   (T_update_data (t_direction cfg) (t_entry_price s3) (stop_loss_price s3)
                      (t_peak_price s3) price)],
                l2))"

text \<open>
  The trailing stop set to \<open>new_sl\<close> with the peak at the tick's price, then the broadcast:
  the tail the activation and the update branches of \<open>_check_trailing_stop\<close> share.
\<close>

definition t_trail ::
  "test_config \<Rightarrow> test_state \<Rightarrow> real \<Rightarrow> real \<Rightarrow> reason \<Rightarrow> int \<Rightarrow> test_result" where
  "t_trail cfg s price new_sl rsn now =
     (case broadcast_trailing_stop_update cfg
             (s\<lparr>t_trailing_stop_active := True, t_peak_price := Some price,
                stop_loss_price := Some new_sl\<rparr>) price rsn now of
        (s1, evs, logs) \<Rightarrow> (s1, evs, T_log_trailing rsn price new_sl # logs))"

text \<open>
  \<open>_check_trailing_stop\<close>. Comparing the price with a peak that is \<open>None\<close> raises TypeError.
\<close>

definition check_trailing_stop ::
  "test_config \<Rightarrow> test_state \<Rightarrow> real \<Rightarrow> int \<Rightarrow> py_error + test_result" where
  "check_trailing_stop cfg s price now =
     (if falsy (t_entry_price s) \<or> falsy (stop_loss_price s) \<or>
         falsy (t_trailing_activation_price s)
      then Inr (s, [], [])
      else case t_trailing_activation_price s of
        None \<Rightarrow> Inr (s, [], [])
      | Some tsa \<Rightarrow>
          if t_direction cfg = LONG then
            (if \<not> t_trailing_stop_active s \<and> price \<ge> tsa
             then Inr (t_trail cfg s price (price - t_trailing_stop_distance cfg)
                         TRAILING_STOP_ACTIVATED now)
             else if t_trailing_stop_active s then
               (case t_peak_price s of
                  None \<Rightarrow> Inl TypeError
                | Some pk \<Rightarrow>
                    if price > pk
                    then Inr (t_trail cfg s price (price - t_trailing_stop_distance cfg)
                                TRAILING_STOP_UPDATED now)
                    else Inr (s, [], []))
             else Inr (s, [], []))
          else
            (if \<not> t_trailing_stop_active s \<and> price \<le> tsa
             then Inr (t_trail cfg s price (price + t_trailing_stop_distance cfg)
                         TRAILING_STOP_ACTIVATED now)
             else if t_trailing_stop_active s then
               (case t_peak_price s of
                  None \<Rightarrow> Inl TypeError
                | Some pk \<Rightarrow>
                    if price < pk
                    then Inr (t_trail cfg s price (price + t_trailing_stop_distance cfg)
                                TRAILING_STOP_UPDATED now)
                    else Inr (s, [], []))
             else Inr (s, [], [])))"

text \<open>
  The price a tick carries for \<open>process_tick\<close>: under \<open>price\<close> if that key is present,
  else under \<open>p\<close>, else none (the current price stays).
\<close>

definition tick_update :: "tick \<Rightarrow> py_error + real option" where
  "tick_update tk =
     (case tick_price tk of
        Some v \<Rightarrow> (case py_float v of Inl e \<Rightarrow> Inl e | Inr r \<Rightarrow> Inr (Some r))
      | None \<Rightarrow>
          (case tick_p tk of
             Some v \<Rightarrow> (case py_float v of Inl e \<Rightarrow> Inl e | Inr r \<Rightarrow> Inr (Some r))
           | None \<Rightarrow> Inr None))"

text \<open>
  \<open>process_tick\<close> catches ValueError and KeyError only. The first component of the result is
  the exception that leaves the call, if any; the state is the one reached by then.
\<close>

definition process_tick ::
  "test_config \<Rightarrow> test_state \<Rightarrow> tick \<Rightarrow> int \<Rightarrow> py_error option \<times> test_result" where
  "process_tick cfg s tk now =
     (case tick_update tk of
        Inl e \<Rightarrow>
          if e = ValueError then (None, s, [], [T_log_parse_failed e]) else (Some e, s, [], [])
      | Inr upd \<Rightarrow>
          let s1 = (case upd of None \<Rightarrow> s | Some r \<Rightarrow> s\<lparr>current_price := Some r\<rparr>);
              l1 = (case (current_price s, current_price s1) of
                      (None, Some c) \<Rightarrow> [T_log_first_tick c]
                    | _ \<Rightarrow> [])
          in case (t_entry_price s1, current_price s1) of
               (Some e, Some c) \<Rightarrow>
                 (case check_trailing_stop cfg s1 c now of
                    Inl err \<Rightarrow>
                      if err = ValueError then (None, s1, [], l1 @ [T_log_parse_failed err])
                      else (Some err, s1, [], l1)
                  | Inr (s2, evs, l2) \<Rightarrow> (None, s2, evs, l1 @ l2))
             | _ \<Rightarrow> (None, s1, [], l1))"

text \<open>
  The calls the test strategy receives over its life: the entry, ticks, the time-limit
  exit, a reset (\<open>start\<close> and \<open>stop\<close> both make one) and requests for the current state. A run
  collects the events broadcast.
\<close>

datatype test_input = T_enter int | T_tick tick int | T_exit int | T_reset | T_get int

definition test_step ::
  "test_config \<Rightarrow> test_state \<Rightarrow> test_input \<Rightarrow>
     test_state \<times> (test_snapshot, test_event_data) event list" where
  "test_step cfg s i =
     (case i of
        T_enter now \<Rightarrow> (case enter_trade cfg s now of (s1, evs, logs) \<Rightarrow> (s1, evs))
      | T_tick tk now \<Rightarrow> (case process_tick cfg s tk now of (err, s1, evs, logs) \<Rightarrow> (s1, evs))
      | T_exit now \<Rightarrow> (case exit_trade_time_limit cfg s now of (s1, evs, logs) \<Rightarrow> (s1, evs))
      | T_reset \<Rightarrow> (reset_strategy_state s, [])
      | T_get now \<Rightarrow> (case t_get_strategy_state cfg s now of (snap, s1, logs) \<Rightarrow> (s1, [])))"

fun test_run ::
  "test_config \<Rightarrow> test_state \<Rightarrow> test_input list \<Rightarrow>
     test_state \<times> (test_snapshot, test_event_data) event list" where
  "test_run cfg s [] = (s, [])"
| "test_run cfg s (i # rest) =
     (case test_step cfg s i of
        (s1, evs) \<Rightarrow> (case test_run cfg s1 rest of (s2, evs2) \<Rightarrow> (s2, evs @ evs2)))"

text \<open>
  What the requests for the current state return along a list of ticks and requests.
\<close>

datatype window_call = W_tick tick int | W_get int

fun call_time :: "window_call \<Rightarrow> int" where
  "call_time (W_tick tk now) = now"
| "call_time (W_get now) = now"

fun observe :: "test_config \<Rightarrow> test_state \<Rightarrow> window_call list \<Rightarrow> test_snapshot list" where
  "observe cfg s [] = []"
| "observe cfg s (W_tick tk now # rest) =
     (case process_tick cfg s tk now of (err, s1, evs, logs) \<Rightarrow> observe cfg s1 rest)"
| "observe cfg s (W_get now # rest) =
     (case t_get_strategy_state cfg s now of (snap, s1, logs) \<Rightarrow> snap # observe cfg s1 rest)"

text \<open>The offline window as a predicate of the entry time and the clock.\<close>

definition offline_at :: "test_config \<Rightarrow> test_state \<Rightarrow> int \<Rightarrow> bool" where
  "offline_at cfg s now = fst (is_in_offline_window cfg s now)"

definition test_config0 :: test_config where
  "test_config0 = \<lparr>t_instance_name = ''TestStrategy'', t_initial_stop_loss_points = 2000,
     t_trailing_activation_offset = 1000, t_trailing_stop_distance = 900, t_direction = LONG,
     simulate_offline = True, offline_start_delay = 10, offline_duration = 10\<rparr>"

definition entered :: test_state where
  "entered = fst (test_run test_config0 test_init [T_tick (price_tick 100000) 0, T_enter 0])"

definition advanced :: test_state where
  "advanced = fst (test_step test_config0 entered (T_tick (price_tick 101000) 11000000))"

text \<open>One stamp at most per call, and an event only with a stamp.\<close>

definition t_outcome ::
  "test_state \<Rightarrow> test_state \<Rightarrow> (test_snapshot, test_event_data) event list \<Rightarrow> bool" where
  "t_outcome s s' evs =
     ((t_state_sequence s' = t_state_sequence s \<and> evs = []) \<or>
      (t_state_sequence s' = t_state_sequence s + 1 \<and>
       (case evs of
          [] \<Rightarrow> True
        | [e] \<Rightarrow> t_seq_of (ev_strategy_state e) = Some (t_state_sequence s + 1)
        | _ \<Rightarrow> False)))"

text \<open>
  States of a test run: \<open>entered\<close> after the first tick and the entry at time 0, which is
  the state until the tick at 11 s; \<open>advanced\<close> after that tick, inside the offline window
  (10 s to 20 s after the entry); \<open>frozen\<close> after a state request at 12 s; \<open>later\<close> after
  one more tick at 13 s.
\<close>

definition frozen :: test_state where
  "frozen = fst (snd (t_get_strategy_state test_config0 advanced 12000000))"

definition later :: test_state where
  "later = fst (snd (process_tick test_config0 frozen (price_tick 102000) 13000000))"

section \<open>Properties of the IPC strategy\<close>

lemmas ipc_defs = check_signal_trigger_def signal_trigger_try_def open_signal_def get_float_def
  py_float_def update_strategy_state_def mk_event_def check_position_management_def
  position_management_try_def close_position_def time_limit_close_def trail_update_def
  pnl_of_def pnl_pct_of_def

lemmas scenario_defs = scenario_config_def price_tick_def scenario_prediction_def init_state_def

subsection \<open>What one call does\<close>

lemma step_outcome_same: "step_outcome s (s, [], logs)"
  by (simp add: step_outcome_def)

lemma open_signal_outcome:
  "active_signal s = None \<Longrightarrow> step_outcome s (open_signal cfg s a b t p now)"
  by (simp add: step_outcome_def stamped_def open_signal_def update_strategy_state_def
      mk_event_def Let_def)

lemma close_position_outcome:
  "close_position cfg s price rsn now = Inr r \<Longrightarrow> step_outcome s r"
  by (auto simp: step_outcome_def stamped_def close_position_def update_strategy_state_def
      mk_event_def Let_def split: option.splits sum.splits)

lemma time_limit_outcome:
  "time_limit_close cfg s a price now = Inr r \<Longrightarrow> active_signal s = Some a \<Longrightarrow> step_outcome s r"
  by (auto simp: step_outcome_def stamped_def time_limit_close_def update_strategy_state_def
      mk_event_def Let_def split: sum.splits)

lemma trail_update_outcome:
  "active_signal s = Some a \<Longrightarrow> step_outcome s (trail_update cfg s a price new_sl rsn now)"
  by (simp add: step_outcome_def stamped_def trail_update_def update_strategy_state_def
      mk_event_def Let_def)

lemma position_management_try_outcome:
  assumes "position_management_try cfg s a tk now = Inr r" and "active_signal s = Some a"
  shows "step_outcome s r"
  using assms unfolding position_management_try_def
  by (auto split: sum.splits if_splits option.splits
      intro: step_outcome_same trail_update_outcome
      dest: close_position_outcome time_limit_outcome)

lemma check_position_management_outcome:
  "step_outcome s (check_position_management cfg s tk now)"
  unfolding check_position_management_def
  by (auto split: option.splits sum.splits
      intro: step_outcome_same position_management_try_outcome)

lemma signal_trigger_try_outcome:
  assumes "signal_trigger_try tz cfg s pred tk now = Inr r" and "active_signal s = None"
  shows "step_outcome s r"
  using assms unfolding signal_trigger_try_def
  by (auto split: sum.splits iso_time.splits if_splits
      intro: step_outcome_same open_signal_outcome)

lemma check_signal_trigger_outcome:
  "step_outcome s (check_signal_trigger tz cfg s pred tk now)"
  unfolding check_signal_trigger_def
  by (auto split: sum.splits intro: step_outcome_same signal_trigger_try_outcome)

lemma step_outcome_step: "step_outcome s (step tz cfg s i)"
  by (cases i) (simp_all add: step_def check_position_management_outcome check_signal_trigger_outcome)


lemma run_no_two_opens:
  "run tz cfg s ins = (s', evs) \<Longrightarrow> no_two_opens (active_signal s \<noteq> None) (map position evs)"
proof (induction ins arbitrary: s s' evs)
  case Nil
  then show ?case by simp
next
  case (Cons i rest)
  obtain s1 ev1 l1 where st: "step tz cfg s i = (s1, ev1, l1)"
    by (cases "step tz cfg s i") auto
  obtain s2 ev2 where rn: "run tz cfg s1 rest = (s2, ev2)"
    by (cases "run tz cfg s1 rest") auto
  from Cons.prems st rn have evs: "evs = ev1 @ ev2" by simp
  have ih: "no_two_opens (active_signal s1 \<noteq> None) (map position ev2)"
    using Cons.IH [OF rn] .
  have "step_outcome s (s1, ev1, l1)"
    using step_outcome_step [of s tz cfg i] st by simp
  with ih show ?case
    unfolding evs by (auto simp: step_outcome_def stamped_def split: list.splits)
qed

lemma run_seqs_increase:
  "run tz cfg s ins = (s', evs) \<Longrightarrow>
     seqs_increase seq_of (state_sequence s) (map ev_strategy_state evs)"
proof (induction ins arbitrary: s s' evs)
  case Nil
  then show ?case by simp
next
  case (Cons i rest)
  obtain s1 ev1 l1 where st: "step tz cfg s i = (s1, ev1, l1)"
    by (cases "step tz cfg s i") auto
  obtain s2 ev2 where rn: "run tz cfg s1 rest = (s2, ev2)"
    by (cases "run tz cfg s1 rest") auto
  from Cons.prems st rn have evs: "evs = ev1 @ ev2" by simp
  have ih: "seqs_increase seq_of (state_sequence s1) (map ev_strategy_state ev2)"
    using Cons.IH [OF rn] .
  have "step_outcome s (s1, ev1, l1)"
    using step_outcome_step [of s tz cfg i] st by simp
  with ih show ?case
    unfolding evs by (auto simp: step_outcome_def stamped_def split: list.splits)
qed

lemma published_nondecrease:
  "stamp_ok s \<Longrightarrow> seqs_nondecrease seq_of (state_sequence s) (published tz cfg s ins)"
proof (induction ins arbitrary: s)
  case Nil
  then show ?case by simp
next
  case (Cons x rest)
  show ?case
  proof (cases x)
    case Heartbeat_in
    with Cons.IH [OF Cons.prems] Cons.prems show ?thesis
      by (auto simp: stamp_ok_def get_strategy_state_def)
  next
    case (Strategy_in i)
    obtain s1 ev1 l1 where st: "step tz cfg s i = (s1, ev1, l1)"
      by (cases "step tz cfg s i") auto
    have o: "step_outcome s (s1, ev1, l1)"
      using step_outcome_step [of s tz cfg i] st by simp
    then have ok: "stamp_ok s1"
      using Cons.prems by (auto simp: step_outcome_def stamped_def stamp_ok_def)
    from Cons.IH [OF ok] o Strategy_in st show ?thesis
      by (auto simp: step_outcome_def stamped_def split: list.splits)
  qed
qed

lemma trailing_inv_open:
  "open_signal cfg s a b t p now = (s', evs, logs) \<Longrightarrow> trailing_inv cfg s'"
  by (auto simp: trailing_inv_def open_signal_def update_strategy_state_def Let_def)

lemma trailing_inv_close:
  "close_position cfg s price rsn now = Inr (s', evs, logs) \<Longrightarrow> trailing_inv cfg s \<Longrightarrow> trailing_inv cfg s'"
  by (auto simp: trailing_inv_def close_position_def update_strategy_state_def Let_def
      split: option.splits sum.splits)

lemma trailing_inv_time_limit:
  "time_limit_close cfg s a price now = Inr (s', evs, logs) \<Longrightarrow> trailing_inv cfg s'"
  by (auto simp: trailing_inv_def time_limit_close_def update_strategy_state_def Let_def
      split: sum.splits)

lemma trailing_inv_trail_long:
  "trail_update cfg s a p (p - trailing_stop_distance cfg) rsn now = (s', evs, logs) \<Longrightarrow>
   direction a = LONG \<Longrightarrow> trailing_inv cfg s'"
  by (auto simp: trailing_inv_def trail_update_def update_strategy_state_def Let_def)

lemma trailing_inv_trail_short:
  "trail_update cfg s a p (p + trailing_stop_distance cfg) rsn now = (s', evs, logs) \<Longrightarrow>
   direction a \<noteq> LONG \<Longrightarrow> trailing_inv cfg s'"
  by (auto simp: trailing_inv_def trail_update_def update_strategy_state_def Let_def)

lemma trailing_inv_management_try:
  assumes "position_management_try cfg s a tk now = Inr (s', evs, logs)" and "trailing_inv cfg s"
  shows "trailing_inv cfg s'"
  using assms unfolding position_management_try_def
  by (auto split: sum.splits if_splits option.splits
      dest: trailing_inv_close trailing_inv_time_limit
        trailing_inv_trail_long trailing_inv_trail_short)

lemma trailing_inv_step:
  assumes "step tz cfg s i = (s', evs, logs)" and "trailing_inv cfg s"
  shows "trailing_inv cfg s'"
  using assms
  by (cases i)
     (auto simp: step_def check_position_management_def check_signal_trigger_def
        signal_trigger_try_def
        split: option.splits sum.splits if_splits iso_time.splits
        dest: trailing_inv_management_try trailing_inv_open)

lemma trailing_inv_run:
  "run tz cfg s ins = (s', evs) \<Longrightarrow> trailing_inv cfg s \<Longrightarrow> trailing_inv cfg s'"
proof (induction ins arbitrary: s s' evs)
  case Nil
  then show ?case by simp
next
  case (Cons i rest)
  obtain s1 ev1 l1 where st: "step tz cfg s i = (s1, ev1, l1)"
    by (cases "step tz cfg s i") auto
  obtain s2 ev2 where rn: "run tz cfg s1 rest = (s2, ev2)"
    by (cases "run tz cfg s1 rest") auto
  from Cons.prems st rn have "s' = s2" by simp
  moreover have "trailing_inv cfg s1" using trailing_inv_step [OF st Cons.prems(2)] .
  ultimately show ?case using Cons.IH [OF rn] by simp
qed

lemma close_position_clears:
  "close_position cfg s price rsn now = Inr (s', evs, logs) \<Longrightarrow> active_signal s \<noteq> None \<Longrightarrow> active_signal s' = None"
  by (auto simp: close_position_def update_strategy_state_def Let_def
      split: option.splits sum.splits)

lemma time_limit_clears:
  "time_limit_close cfg s a price now = Inr (s', evs, logs) \<Longrightarrow> active_signal s' = None"
  by (auto simp: time_limit_close_def update_strategy_state_def Let_def split: sum.splits)

lemma trail_update_signal:
  "active_signal (fst (trail_update cfg s a p new_sl rsn now)) = Some (a\<lparr>stop_loss := new_sl\<rparr>)"
  by (simp add: trail_update_def update_strategy_state_def Let_def)

lemma tightening_step:
  assumes inv: "trailing_inv cfg s" and a: "active_signal s = Some a"
    and tr: "trailing_stop_active s"
    and r: "check_position_management cfg s tk now = (s', evs, logs)"
    and a': "active_signal s' = Some a'"
  shows "direction a' = direction a \<and>
         (direction a = LONG \<longrightarrow> stop_loss a \<le> stop_loss a') \<and>
         (direction a = SHORT \<longrightarrow> stop_loss a' \<le> stop_loss a)"
proof -
  obtain pk where pk: "peak_price s = Some pk"
    and sl: "stop_loss a = (if direction a = LONG then pk - trailing_stop_distance cfg
                            else pk + trailing_stop_distance cfg)"
    using inv a tr by (auto simp: trailing_inv_def split: option.splits)
  show ?thesis
    using r a a' tr pk sl
      trail_update_signal [of cfg s a]
    unfolding check_position_management_def position_management_try_def
    by (auto split: sum.splits if_splits
        dest: close_position_clears time_limit_clears
        simp: trail_update_def update_strategy_state_def Let_def)
qed

subsection \<open>The scenario's states, computed\<close>

lemma armed_state_eq:
  "armed_state =
     \<lparr>event_counter = 2,
      active_signal = Some \<lparr>direction = LONG, entry_price = 100000, stop_loss = 100100,
        target = 100700, trailing_activation_price = 101000, entry_time = 0,
        prediction_data = (100000, 100700, 0)\<rparr>,
      trailing_stop_active = True, peak_price = Some 101000,
      strategy_state = Full 100100 100700 100000 101000 True 2, state_sequence = 2\<rparr>"
  by (simp add: armed_state_def armed_inputs_def step_def ipc_defs scenario_defs Let_def)

lemma raised_state_eq:
  "raised_state =
     \<lparr>event_counter = 3,
      active_signal = Some \<lparr>direction = LONG, entry_price = 100000, stop_loss = 101100,
        target = 100700, trailing_activation_price = 101000, entry_time = 0,
        prediction_data = (100000, 100700, 0)\<rparr>,
      trailing_stop_active = True, peak_price = Some 102000,
      strategy_state = Full 101100 100700 100000 101000 True 3, state_sequence = 3\<rparr>"
  by (simp add: raised_state_def armed_state_eq ipc_defs scenario_defs Let_def)

subsection \<open>One position, the scenario, the trailing stop\<close>

text \<open>
  C1. At most one position exists at any time. The position lives in the single field
  \<open>active_signal\<close>; \<open>check_signal_trigger\<close> returns at once, with the state as it was and
  nothing broadcast or logged, whenever that field is set; and in the events of any run of
  ticks and predictions, from any state, no \<open>OPEN\<close> follows another without a \<open>CLOSE\<close>
  between them (nor follows the start of the run when a position is open then).
\<close>

theorem at_most_one_position:
  "(active_signal s \<noteq> None \<longrightarrow> check_signal_trigger tz cfg s pred tk now = (s, [], [])) \<and>
   no_two_opens (active_signal s0 \<noteq> None) (map position (snd (run tz cfg s0 ins)))"
proof
  show "active_signal s \<noteq> None \<longrightarrow> check_signal_trigger tz cfg s pred tk now = (s, [], [])"
    by (simp add: check_signal_trigger_def)
  show "no_two_opens (active_signal s0 \<noteq> None) (map position (snd (run tz cfg s0 ins)))"
    using run_no_two_opens [of tz cfg s0 ins "fst (run tz cfg s0 ins)" "snd (run tz cfg s0 ins)"]
    by simp
qed

theorem at_most_one_position_witness:
  "active_signal (fst (open_signal scenario_config init_state 100000 100700 0 100000 0)) \<noteq> None \<and>
   check_signal_trigger (\<lambda>_. - 18000) scenario_config
     (fst (open_signal scenario_config init_state 100000 100700 0 100000 0))
     (scenario_prediction 0) (price_tick 100000) 5
   = (fst (open_signal scenario_config init_state 100000 100700 0 100000 0), [], []) \<and>
   no_two_opens False (map position (snd (run (\<lambda>_. - 18000) scenario_config init_state
     [Prediction_in (scenario_prediction 0) (price_tick 100000) 0,
      Prediction_in (scenario_prediction 0) (price_tick 100000) 1,
      Tick_in (price_tick 97000) 2,
      Prediction_in (scenario_prediction 0) (price_tick 97000) 3])))"
proof -
  have h: "active_signal (fst (open_signal scenario_config init_state 100000 100700 0 100000 0)) \<noteq> None"
    by (simp add: open_signal_def update_strategy_state_def Let_def)
  have i: "(active_signal init_state \<noteq> None) = False"
    by (simp add: init_state_def)
  show ?thesis
    using h i at_most_one_position [of
        "fst (open_signal scenario_config init_state 100000 100700 0 100000 0)"
        "\<lambda>_. - 18000" scenario_config "scenario_prediction 0" "price_tick 100000" 5
        init_state
        "[Prediction_in (scenario_prediction 0) (price_tick 100000) 0,
          Prediction_in (scenario_prediction 0) (price_tick 100000) 1,
          Tick_in (price_tick 97000) 2,
          Prediction_in (scenario_prediction 0) (price_tick 97000) 3]"]
    by simp
qed

text \<open>
  C3. The end-to-end scenario (delta 500, initial stop 2000, trailing offset 1000, trailing
  distance 900, session filter off, no position, seq 0). The prediction 100000 \<rightarrow> 100700,
  carrying any well-formed prediction time, with the tick at 100000 opens a LONG position:
  entry 100000, stop 98000, activation 101000, target 100700, seq 1. The tick at 101000
  arms the trailing stop: peak 101000, stop 100100, seq 2. The tick at 100050 closes on the
  stop: pnl 50, pnl percentage 0.05, seq 3, and no position is left. Both ticks arrive
  within the two hours of the time limit.
\<close>

theorem end_to_end_scenario:
  assumes "n1 - n0 \<le> 7200000000" and "n2 - n0 \<le> 7200000000"
  shows "(case check_signal_trigger tz scenario_config init_state (scenario_prediction t)
                (price_tick 100000) n0 of
     (s1, ev1, l1) \<Rightarrow>
       map position ev1 = [OPEN] \<and> map reason ev1 = [SIGNAL_DETECTED] \<and>
       map event_data ev1 = [Open_data LONG 100000 100700 98000 101000] \<and>
       map ev_strategy_state ev1 = [Full 98000 100700 100000 101000 False 1] \<and>
       map_option direction (active_signal s1) = Some LONG \<and>
       map_option entry_price (active_signal s1) = Some 100000 \<and>
       map_option stop_loss (active_signal s1) = Some 98000 \<and>
       map_option trailing_activation_price (active_signal s1) = Some 101000 \<and>
       map_option target (active_signal s1) = Some 100700 \<and>
       state_sequence s1 = 1 \<and>
       (case check_position_management scenario_config s1 (price_tick 101000) n1 of
         (s2, ev2, l2) \<Rightarrow>
           map position ev2 = [UPDATE] \<and> map reason ev2 = [TRAILING_STOP_ACTIVATED] \<and>
           map event_data ev2 = [Update_data LONG 100000 100100 101000 101000] \<and>
           map ev_strategy_state ev2 = [Full 100100 100700 100000 101000 True 2] \<and>
           peak_price s2 = Some 101000 \<and>
           map_option stop_loss (active_signal s2) = Some 100100 \<and>
           trailing_stop_active s2 \<and> state_sequence s2 = 2 \<and>
           (case check_position_management scenario_config s2 (price_tick 100050) n2 of
              (s3, ev3, l3) \<Rightarrow>
                map position ev3 = [CLOSE] \<and> map reason ev3 = [STOP_LOSS_HIT] \<and>
                map event_data ev3 = [Close_data LONG 100000 100100 100050 50 0.05] \<and>
                map ev_strategy_state ev3 = [Absent 3] \<and>
                state_sequence s3 = 3 \<and> active_signal s3 = None)))"
  using assms
  by (simp add: ipc_defs scenario_defs Let_def)

theorem end_to_end_scenario_witness:
  "(60000000::int) - 0 \<le> 7200000000 \<and> (120000000::int) - 0 \<le> 7200000000 \<and>
   (case check_signal_trigger (\<lambda>_. - 18000) scenario_config init_state
                (scenario_prediction 1736168400000000)
                (price_tick 100000) 0 of
     (s1, ev1, l1) \<Rightarrow>
       map position ev1 = [OPEN] \<and> map reason ev1 = [SIGNAL_DETECTED] \<and>
       map event_data ev1 = [Open_data LONG 100000 100700 98000 101000] \<and>
       map ev_strategy_state ev1 = [Full 98000 100700 100000 101000 False 1] \<and>
       map_option direction (active_signal s1) = Some LONG \<and>
       map_option entry_price (active_signal s1) = Some 100000 \<and>
       map_option stop_loss (active_signal s1) = Some 98000 \<and>
       map_option trailing_activation_price (active_signal s1) = Some 101000 \<and>
       map_option target (active_signal s1) = Some 100700 \<and>
       state_sequence s1 = 1 \<and>
       (case check_position_management scenario_config s1 (price_tick 101000) 60000000 of
         (s2, ev2, l2) \<Rightarrow>
           map position ev2 = [UPDATE] \<and> map reason ev2 = [TRAILING_STOP_ACTIVATED] \<and>
           map event_data ev2 = [Update_data LONG 100000 100100 101000 101000] \<and>
           map ev_strategy_state ev2 = [Full 100100 100700 100000 101000 True 2] \<and>
           peak_price s2 = Some 101000 \<and>
           map_option stop_loss (active_signal s2) = Some 100100 \<and>
           trailing_stop_active s2 \<and> state_sequence s2 = 2 \<and>
           (case check_position_management scenario_config s2 (price_tick 100050) 120000000 of
              (s3, ev3, l3) \<Rightarrow>
                map position ev3 = [CLOSE] \<and> map reason ev3 = [STOP_LOSS_HIT] \<and>
                map event_data ev3 = [Close_data LONG 100000 100100 100050 50 0.05] \<and>
                map ev_strategy_state ev3 = [Absent 3] \<and>
                state_sequence s3 = 3 \<and> active_signal s3 = None)))"
proof -
  have h1: "(60000000::int) - 0 \<le> 7200000000" and h2: "(120000000::int) - 0 \<le> 7200000000"
    by simp_all
  show ?thesis
    by (rule conjI, rule h1, rule conjI, rule h2, rule end_to_end_scenario [OF h1 h2])
qed

text \<open>
  C4. The trailing stop only tightens. In any state reached from the initial one by a run
  of ticks and predictions in which the trailing stop is armed, a further tick handled by
  \<open>check_position_management\<close> that leaves the position open leaves its direction alone
  and its stop no lower than before for LONG, no higher than before for SHORT.
\<close>

theorem trailing_stop_only_tightens:
  assumes "run tz cfg init_state ins = (s, evs)"
    and "active_signal s = Some a" and "trailing_stop_active s"
    and "check_position_management cfg s tk now = (s', evs', logs')"
    and "active_signal s' = Some a'"
  shows "direction a' = direction a \<and>
         (direction a = LONG \<longrightarrow> stop_loss a \<le> stop_loss a') \<and>
         (direction a = SHORT \<longrightarrow> stop_loss a' \<le> stop_loss a)"
proof -
  have "trailing_inv cfg init_state"
    by (simp add: trailing_inv_def init_state_def)
  then have "trailing_inv cfg s"
    using trailing_inv_run [OF assms(1)] by simp
  then show ?thesis
    using tightening_step assms(2-5) by blast
qed

theorem trailing_stop_only_tightens_witness:
  "active_signal armed_state \<noteq> None \<and> trailing_stop_active armed_state \<and>
   active_signal raised_state \<noteq> None \<and>
   direction (the (active_signal armed_state)) = LONG \<and>
   stop_loss (the (active_signal armed_state)) = 100100 \<and>
   stop_loss (the (active_signal raised_state)) = 101100 \<and>
   stop_loss (the (active_signal armed_state)) \<le> stop_loss (the (active_signal raised_state))"
proof -
  have 1: "run (\<lambda>_. - 18000) scenario_config init_state armed_inputs =
             (armed_state, snd (run (\<lambda>_. - 18000) scenario_config init_state armed_inputs))"
    by (simp add: armed_state_def)
  have 2: "active_signal armed_state = Some (the (active_signal armed_state))"
    by (simp add: armed_state_eq)
  have 3: "trailing_stop_active armed_state"
    by (simp add: armed_state_eq)
  have 4: "check_position_management scenario_config armed_state (price_tick 102000) 120000000 =
             (raised_state,
              snd (check_position_management scenario_config armed_state (price_tick 102000)
                     120000000))"
    by (simp add: raised_state_def)
  have 5: "active_signal raised_state = Some (the (active_signal raised_state))"
    by (simp add: raised_state_eq)
  have "direction (the (active_signal armed_state)) = LONG \<longrightarrow>
        stop_loss (the (active_signal armed_state)) \<le> stop_loss (the (active_signal raised_state))"
    using trailing_stop_only_tightens [OF 1 2 3 _ 5, of "price_tick 102000" 120000000
        "fst (snd (check_position_management scenario_config armed_state (price_tick 102000)
                     120000000))"
        "snd (snd (check_position_management scenario_config armed_state (price_tick 102000)
                     120000000))"] 4
    by simp
  then show ?thesis
    by (simp add: armed_state_eq raised_state_eq)
qed

subsection \<open>Single calls\<close>

lemma ny_hour_time_of_day: "ny_hour tz t = ny_time_of_day tz t div 3600"
  by (simp add: ny_hour_def ny_time_of_day_def)

text \<open>
  C5. The delta threshold is strict. A prediction whose two prices differ by exactly
  \<open>delta\<close> leaves the state as it was and broadcasts nothing. One whose prices differ by
  more than \<open>delta\<close> (the witness takes \<open>delta + 0.01\<close>) opens a position and broadcasts
  one \<open>OPEN\<close>/\<open>SIGNAL_DETECTED\<close> event, provided no position is active, the prediction time
  parses, the tick price reads as a number and the session filter, when on, admits the time.
\<close>

theorem delta_threshold_is_strict:
  "(get_float (prediction_price pred) = Inr a \<and> get_float (predicted_price pred) = Inr b \<and>
    abs (b - a) = delta cfg \<longrightarrow>
      fst (check_signal_trigger tz cfg s pred tk now) = s \<and>
      fst (snd (check_signal_trigger tz cfg s pred tk now)) = []) \<and>
   (active_signal s2 = None \<and>
    get_float (prediction_price pred2) = Inr a2 \<and> get_float (predicted_price pred2) = Inr b2 \<and>
    abs (b2 - a2) > delta cfg2 \<and>
    prediction_time pred2 = Time t \<and> get_float (tick_p tk2) = Inr p \<and>
    (session_filter cfg2 \<longrightarrow>
       ny_weekday tz2 t < 5 \<and> 8 \<le> ny_hour tz2 t \<and> ny_hour tz2 t < 11) \<longrightarrow>
      check_signal_trigger tz2 cfg2 s2 pred2 tk2 now2 = open_signal cfg2 s2 a2 b2 t p now2 \<and>
      map position (fst (snd (check_signal_trigger tz2 cfg2 s2 pred2 tk2 now2))) = [OPEN] \<and>
      map reason (fst (snd (check_signal_trigger tz2 cfg2 s2 pred2 tk2 now2))) = [SIGNAL_DETECTED] \<and>
      active_signal (fst (check_signal_trigger tz2 cfg2 s2 pred2 tk2 now2)) \<noteq> None)"
proof (intro conjI impI)
  assume h: "get_float (prediction_price pred) = Inr a \<and> get_float (predicted_price pred) = Inr b \<and>
    abs (b - a) = delta cfg"
  then have "fst (check_signal_trigger tz cfg s pred tk now) = s \<and>
      fst (snd (check_signal_trigger tz cfg s pred tk now)) = []"
    by (auto simp: check_signal_trigger_def signal_trigger_try_def
        split: iso_time.splits sum.splits)
  then show "fst (check_signal_trigger tz cfg s pred tk now) = s"
    and "fst (snd (check_signal_trigger tz cfg s pred tk now)) = []" by simp_all
next
  assume h: "active_signal s2 = None \<and>
    get_float (prediction_price pred2) = Inr a2 \<and> get_float (predicted_price pred2) = Inr b2 \<and>
    abs (b2 - a2) > delta cfg2 \<and>
    prediction_time pred2 = Time t \<and> get_float (tick_p tk2) = Inr p \<and>
    (session_filter cfg2 \<longrightarrow>
       ny_weekday tz2 t < 5 \<and> 8 \<le> ny_hour tz2 t \<and> ny_hour tz2 t < 11)"
  then have eq: "check_signal_trigger tz2 cfg2 s2 pred2 tk2 now2 = open_signal cfg2 s2 a2 b2 t p now2"
    by (auto simp: check_signal_trigger_def signal_trigger_try_def)
  show "check_signal_trigger tz2 cfg2 s2 pred2 tk2 now2 = open_signal cfg2 s2 a2 b2 t p now2"
    by (rule eq)
  show "map position (fst (snd (check_signal_trigger tz2 cfg2 s2 pred2 tk2 now2))) = [OPEN]"
    unfolding eq by (simp add: open_signal_def mk_event_def Let_def)
  show "map reason (fst (snd (check_signal_trigger tz2 cfg2 s2 pred2 tk2 now2))) = [SIGNAL_DETECTED]"
    unfolding eq by (simp add: open_signal_def mk_event_def Let_def)
  show "active_signal (fst (check_signal_trigger tz2 cfg2 s2 pred2 tk2 now2)) \<noteq> None"
    unfolding eq by (simp add: open_signal_def update_strategy_state_def Let_def)
qed

theorem delta_threshold_is_strict_witness:
  "abs (100500 - 100000) = delta scenario_config \<and>
   fst (check_signal_trigger est scenario_config init_state
          (prediction_at 100000 100500 1736168400000000) (price_tick 100000) 0) = init_state \<and>
   fst (snd (check_signal_trigger est scenario_config init_state
          (prediction_at 100000 100500 1736168400000000) (price_tick 100000) 0)) = [] \<and>
   abs (100500.01 - 100000) > delta session_config \<and>
   map position (fst (snd (check_signal_trigger est session_config init_state
          (prediction_at 100000 100500.01 1736168400000000) (price_tick 100000) 0))) = [OPEN]"
proof -
  have h1: "get_float (prediction_price (prediction_at 100000 100500 1736168400000000)) = Inr 100000 \<and>
      get_float (predicted_price (prediction_at 100000 100500 1736168400000000)) = Inr 100500 \<and>
      abs (100500 - 100000) = delta scenario_config"
    by (simp add: prediction_at_def get_float_def py_float_def scenario_config_def)
  have h2: "active_signal init_state = None \<and>
      get_float (prediction_price (prediction_at 100000 100500.01 1736168400000000)) = Inr 100000 \<and>
      get_float (predicted_price (prediction_at 100000 100500.01 1736168400000000)) = Inr 100500.01 \<and>
      abs (100500.01 - 100000) > delta session_config \<and>
      prediction_time (prediction_at 100000 100500.01 1736168400000000) = Time 1736168400000000 \<and>
      get_float (tick_p (price_tick 100000)) = Inr 100000 \<and>
      (session_filter session_config \<longrightarrow>
         ny_weekday est 1736168400000000 < 5 \<and> 8 \<le> ny_hour est 1736168400000000 \<and>
         ny_hour est 1736168400000000 < 11)"
    by (simp add: prediction_at_def get_float_def py_float_def scenario_config_def
        session_config_def init_state_def price_tick_def ny_weekday_def ny_hour_def est_def)
  note t = delta_threshold_is_strict [where pred = "prediction_at 100000 100500 1736168400000000"
      and a = 100000 and b = 100500 and cfg = scenario_config and tz = est and s = init_state
      and tk = "price_tick 100000" and now = 0
      and ?s2.0 = init_state and ?pred2.0 = "prediction_at 100000 100500.01 1736168400000000"
      and ?a2.0 = 100000 and ?b2.0 = "100500.01" and ?cfg2.0 = session_config
      and t = 1736168400000000 and ?tk2.0 = "price_tick 100000" and p = 100000
      and ?tz2.0 = est and ?now2.0 = 0]
  have c1: "fst (check_signal_trigger est scenario_config init_state
          (prediction_at 100000 100500 1736168400000000) (price_tick 100000) 0) = init_state \<and>
      fst (snd (check_signal_trigger est scenario_config init_state
          (prediction_at 100000 100500 1736168400000000) (price_tick 100000) 0)) = []"
    using t h1 by blast
  have c2: "map position (fst (snd (check_signal_trigger est session_config init_state
          (prediction_at 100000 100500.01 1736168400000000) (price_tick 100000) 0))) = [OPEN]"
    using t h2 by blast
  show ?thesis
    using c1 c2 by (simp add: scenario_config_def session_config_def)
qed

text \<open>
  C6. The session window. With the filter on, a prediction whose New York local time is
  before 08:00:00, at or after 11:00:00, or on a Saturday or Sunday changes nothing and
  broadcasts nothing, whatever its prices. A weekday prediction from 08:00:00 on and before
  11:00:00 that passes the delta test, with no position active, broadcasts an \<open>OPEN\<close>. The
  witness checks 07:59:59, 11:00:00, a Saturday and 08:00:00.
\<close>

theorem session_window_boundary:
  "(session_filter cfg \<and> prediction_time pred = Time t \<and>
    (ny_time_of_day tz t < 8 * 3600 \<or> 11 * 3600 \<le> ny_time_of_day tz t \<or> 5 \<le> ny_weekday tz t) \<longrightarrow>
      fst (check_signal_trigger tz cfg s pred tk now) = s \<and>
      fst (snd (check_signal_trigger tz cfg s pred tk now)) = []) \<and>
   (prediction_time pred2 = Time t2 \<and>
    8 * 3600 \<le> ny_time_of_day tz2 t2 \<and> ny_time_of_day tz2 t2 < 11 * 3600 \<and> ny_weekday tz2 t2 < 5 \<and>
    active_signal s2 = None \<and>
    get_float (prediction_price pred2) = Inr a \<and> get_float (predicted_price pred2) = Inr b \<and>
    abs (b - a) > delta cfg2 \<and> get_float (tick_p tk2) = Inr p \<longrightarrow>
      map position (fst (snd (check_signal_trigger tz2 cfg2 s2 pred2 tk2 now2))) = [OPEN])"
proof (intro conjI impI)
  assume h: "session_filter cfg \<and> prediction_time pred = Time t \<and>
    (ny_time_of_day tz t < 8 * 3600 \<or> 11 * 3600 \<le> ny_time_of_day tz t \<or> 5 \<le> ny_weekday tz t)"
  then have "ny_weekday tz t \<ge> 5 \<or> ny_hour tz t < 8 \<or> ny_hour tz t \<ge> 11"
    unfolding ny_hour_time_of_day by auto
  with h have "fst (check_signal_trigger tz cfg s pred tk now) = s \<and>
      fst (snd (check_signal_trigger tz cfg s pred tk now)) = []"
    by (auto simp: check_signal_trigger_def signal_trigger_try_def split: sum.splits)
  then show "fst (check_signal_trigger tz cfg s pred tk now) = s"
    and "fst (snd (check_signal_trigger tz cfg s pred tk now)) = []" by simp_all
next
  assume h: "prediction_time pred2 = Time t2 \<and>
    8 * 3600 \<le> ny_time_of_day tz2 t2 \<and> ny_time_of_day tz2 t2 < 11 * 3600 \<and> ny_weekday tz2 t2 < 5 \<and>
    active_signal s2 = None \<and>
    get_float (prediction_price pred2) = Inr a \<and> get_float (predicted_price pred2) = Inr b \<and>
    abs (b - a) > delta cfg2 \<and> get_float (tick_p tk2) = Inr p"
  then have "8 \<le> ny_hour tz2 t2 \<and> ny_hour tz2 t2 < 11"
    unfolding ny_hour_time_of_day by auto
  with h have "check_signal_trigger tz2 cfg2 s2 pred2 tk2 now2 = open_signal cfg2 s2 a b t2 p now2"
    by (auto simp: check_signal_trigger_def signal_trigger_try_def)
  then show "map position (fst (snd (check_signal_trigger tz2 cfg2 s2 pred2 tk2 now2))) = [OPEN]"
    by (simp add: open_signal_def mk_event_def Let_def)
qed

theorem session_window_boundary_witness:
  "ny_time_of_day est 1736168399000000 = 7 * 3600 + 59 * 60 + 59 \<and>
   ny_weekday est 1736168399000000 = 0 \<and>
   fst (snd (check_signal_trigger est session_config init_state
          (prediction_at 100000 100700 1736168399000000) (price_tick 100000) 0)) = [] \<and>
   ny_time_of_day est 1736179200000000 = 11 * 3600 \<and>
   ny_weekday est 1736179200000000 = 0 \<and>
   fst (snd (check_signal_trigger est session_config init_state
          (prediction_at 100000 100700 1736179200000000) (price_tick 100000) 0)) = [] \<and>
   ny_time_of_day est 1736604000000000 = 9 * 3600 \<and>
   ny_weekday est 1736604000000000 = 5 \<and>
   fst (snd (check_signal_trigger est session_config init_state
          (prediction_at 100000 100700 1736604000000000) (price_tick 100000) 0)) = [] \<and>
   ny_time_of_day est 1736168400000000 = 8 * 3600 \<and>
   ny_weekday est 1736168400000000 = 0 \<and>
   map position (fst (snd (check_signal_trigger est session_config init_state
          (prediction_at 100000 100700 1736168400000000) (price_tick 100000) 0))) = [OPEN]"
proof -
  have tod: "ny_time_of_day est 1736168399000000 = 7 * 3600 + 59 * 60 + 59"
      "ny_time_of_day est 1736179200000000 = 11 * 3600"
      "ny_time_of_day est 1736604000000000 = 9 * 3600"
      "ny_time_of_day est 1736168400000000 = 8 * 3600"
    by (simp_all add: ny_time_of_day_def est_def)
  have wd: "ny_weekday est 1736168399000000 = 0" "ny_weekday est 1736179200000000 = 0"
      "ny_weekday est 1736604000000000 = 5" "ny_weekday est 1736168400000000 = 0"
    by (simp_all add: ny_weekday_def est_def)
  have sf: "session_filter session_config"
    by (simp add: session_config_def)
  have pt: "prediction_time (prediction_at 100000 100700 u) = Time u" for u
    by (simp add: prediction_at_def)
  have c1: "fst (snd (check_signal_trigger est session_config init_state
          (prediction_at 100000 100700 1736168399000000) (price_tick 100000) 0)) = []"
    using session_window_boundary [where cfg = session_config and tz = est
        and pred = "prediction_at 100000 100700 1736168399000000" and t = 1736168399000000
        and s = init_state and tk = "price_tick 100000" and now = 0] sf pt tod wd
    by simp
  have c2: "fst (snd (check_signal_trigger est session_config init_state
          (prediction_at 100000 100700 1736179200000000) (price_tick 100000) 0)) = []"
    using session_window_boundary [where cfg = session_config and tz = est
        and pred = "prediction_at 100000 100700 1736179200000000" and t = 1736179200000000
        and s = init_state and tk = "price_tick 100000" and now = 0] sf pt tod wd
    by simp
  have c3: "fst (snd (check_signal_trigger est session_config init_state
          (prediction_at 100000 100700 1736604000000000) (price_tick 100000) 0)) = []"
    using session_window_boundary [where cfg = session_config and tz = est
        and pred = "prediction_at 100000 100700 1736604000000000" and t = 1736604000000000
        and s = init_state and tk = "price_tick 100000" and now = 0] sf pt tod wd
    by simp
  have h4: "prediction_time (prediction_at 100000 100700 1736168400000000) = Time 1736168400000000 \<and>
      8 * 3600 \<le> ny_time_of_day est 1736168400000000 \<and>
      ny_time_of_day est 1736168400000000 < 11 * 3600 \<and>
      ny_weekday est 1736168400000000 < 5 \<and>
      active_signal init_state = None \<and>
      get_float (prediction_price (prediction_at 100000 100700 1736168400000000)) = Inr 100000 \<and>
      get_float (predicted_price (prediction_at 100000 100700 1736168400000000)) = Inr 100700 \<and>
      abs (100700 - 100000) > delta session_config \<and>
      get_float (tick_p (price_tick 100000)) = Inr 100000"
    by (simp add: tod wd prediction_at_def get_float_def py_float_def scenario_config_def
        session_config_def init_state_def price_tick_def)
  have c4: "map position (fst (snd (check_signal_trigger est session_config init_state
          (prediction_at 100000 100700 1736168400000000) (price_tick 100000) 0))) = [OPEN]"
    using session_window_boundary [where ?cfg2.0 = session_config and ?tz2.0 = est
        and ?pred2.0 = "prediction_at 100000 100700 1736168400000000"
        and ?t2.0 = 1736168400000000 and ?s2.0 = init_state and ?tk2.0 = "price_tick 100000"
        and ?now2.0 = 0 and a = 100000 and b = 100700 and p = 100000] h4
    by blast
  show ?thesis
    using tod wd c1 c2 c3 c4 by simp
qed

text \<open>
  C8. A tick that triggers no branch. With a position active, a tick whose price is inside
  the time limit, on the safe side of the stop, short of the activation price while the
  trailing stop is not armed, and no new peak while it is armed, leaves the whole state,
  \<open>seq\<close> included, as it was and broadcasts nothing.
\<close>

theorem no_branch_tick_is_noop:
  assumes "active_signal s = Some a"
    and "get_float (tick_p tk) = Inr price"
    and "\<not> now - entry_time a > max_position_duration_hours cfg * 3600000000"
    and "direction a = LONG \<longrightarrow> \<not> price \<le> stop_loss a"
    and "direction a = SHORT \<longrightarrow> \<not> price \<ge> stop_loss a"
    and "\<not> trailing_stop_active s \<longrightarrow>
           (direction a = LONG \<longrightarrow> \<not> price \<ge> trailing_activation_price a) \<and>
           (direction a = SHORT \<longrightarrow> \<not> price \<le> trailing_activation_price a)"
    and "trailing_stop_active s \<longrightarrow>
           (\<forall>pk. peak_price s = Some pk \<longrightarrow>
              (direction a = LONG \<longrightarrow> \<not> price > pk) \<and>
              (direction a = SHORT \<longrightarrow> \<not> price < pk))"
  shows "fst (check_position_management cfg s tk now) = s \<and>
         fst (snd (check_position_management cfg s tk now)) = [] \<and>
         state_sequence (fst (check_position_management cfg s tk now)) = state_sequence s"
proof -
  have d: "direction a = SHORT \<longleftrightarrow> direction a \<noteq> LONG"
    by (cases "direction a") simp_all
  show ?thesis
    using assms unfolding d
    by (auto simp: check_position_management_def position_management_try_def
        split: option.splits)
qed

theorem no_branch_tick_is_noop_witness:
  "active_signal armed_state \<noteq> None \<and>
   fst (check_position_management scenario_config armed_state (price_tick 100500) 120000000)
     = armed_state \<and>
   fst (snd (check_position_management scenario_config armed_state (price_tick 100500) 120000000))
     = [] \<and>
   state_sequence
     (fst (check_position_management scenario_config armed_state (price_tick 100500) 120000000))
     = 2"
proof -
  have 1: "active_signal armed_state = Some (the (active_signal armed_state))"
    by (simp add: armed_state_eq)
  have 2: "get_float (tick_p (price_tick 100500)) = Inr 100500"
    by (simp add: price_tick_def get_float_def py_float_def)
  note t = no_branch_tick_is_noop [OF 1 2, where now = 120000000 and cfg = scenario_config]
  have "fst (check_position_management scenario_config armed_state (price_tick 100500) 120000000)
          = armed_state \<and>
        fst (snd (check_position_management scenario_config armed_state (price_tick 100500)
          120000000)) = [] \<and>
        state_sequence (fst (check_position_management scenario_config armed_state
          (price_tick 100500) 120000000)) = state_sequence armed_state"
    by (rule t) (simp_all add: armed_state_eq scenario_config_def)
  then show ?thesis
    by (simp add: armed_state_eq)
qed

text \<open>
  C10. A tick without the key \<open>p\<close> reads as price 0 in \<open>check_signal_trigger\<close>: a
  prediction that passes the delta and session checks, with no position active, opens a
  position with entry price 0; it is LONG exactly when the predicted price is the higher
  one, and then its stop is \<open>- initial_stop_loss_points\<close> and its activation price
  \<open>trailing_activation_offset\<close>.
\<close>

theorem missing_tick_price_opens_at_zero:
  assumes "active_signal s = None" and "tick_p tk = None"
    and "get_float (prediction_price pred) = Inr a"
    and "get_float (predicted_price pred) = Inr b"
    and "abs (b - a) > delta cfg"
    and "prediction_time pred = Time t"
    and "session_filter cfg \<longrightarrow> ny_weekday tz t < 5 \<and> 8 \<le> ny_hour tz t \<and> ny_hour tz t < 11"
  shows "case active_signal (fst (check_signal_trigger tz cfg s pred tk now)) of
           None \<Rightarrow> False
         | Some sg \<Rightarrow>
             entry_price sg = 0 \<and>
             (direction sg = LONG \<longleftrightarrow> b - a > 0) \<and>
             (direction sg = LONG \<longrightarrow>
                stop_loss sg = - initial_stop_loss_points cfg \<and>
                trailing_activation_price sg = trailing_activation_offset cfg)"
  using assms
  by (auto simp: check_signal_trigger_def signal_trigger_try_def get_float_def open_signal_def
      update_strategy_state_def Let_def)

theorem missing_tick_price_opens_at_zero_witness:
  "tick_p no_price_tick = None \<and>
   map_option entry_price (active_signal (fst (check_signal_trigger est scenario_config init_state
      (prediction_at 100000 100700 0) no_price_tick 0))) = Some 0 \<and>
   map_option direction (active_signal (fst (check_signal_trigger est scenario_config init_state
      (prediction_at 100000 100700 0) no_price_tick 0))) = Some LONG \<and>
   map_option stop_loss (active_signal (fst (check_signal_trigger est scenario_config init_state
      (prediction_at 100000 100700 0) no_price_tick 0))) = Some (- 2000) \<and>
   map_option trailing_activation_price (active_signal (fst (check_signal_trigger est
      scenario_config init_state (prediction_at 100000 100700 0) no_price_tick 0))) = Some 1000"
proof -
  have 1: "active_signal init_state = None" by (simp add: init_state_def)
  have 2: "tick_p no_price_tick = None" by (simp add: no_price_tick_def)
  have 3: "get_float (prediction_price (prediction_at 100000 100700 0)) = Inr 100000"
    by (simp add: prediction_at_def get_float_def py_float_def)
  have 4: "get_float (predicted_price (prediction_at 100000 100700 0)) = Inr 100700"
    by (simp add: prediction_at_def get_float_def py_float_def)
  have 5: "abs (100700 - 100000) > delta scenario_config" by (simp add: scenario_config_def)
  have 6: "prediction_time (prediction_at 100000 100700 0) = Time 0"
    by (simp add: prediction_at_def)
  have 7: "session_filter scenario_config \<longrightarrow>
             ny_weekday est 0 < 5 \<and> 8 \<le> ny_hour est 0 \<and> ny_hour est 0 < 11"
    by (simp add: scenario_config_def)
  show ?thesis
    using missing_tick_price_opens_at_zero [OF 1 2 3 4 5 6 7, of 0] 2
    by (simp add: scenario_config_def split: option.splits)
qed

text \<open>
  The \<open>try\<close>/\<open>except\<close> of \<open>check_position_management\<close> at work: a tick whose \<open>p\<close> entry is
  present and not numeric is discarded. The call returns normally with the state, \<open>seq\<close>
  included, as it was and nothing broadcast; the error is logged when a position is active,
  and without a position the call returns before it reads the tick.
\<close>

theorem non_numeric_tick_is_discarded:
  "tick_p tk = Some v \<and> py_float v = Inl e \<longrightarrow>
     check_position_management cfg s tk now =
       (s, [], if active_signal s = None then [] else [Log_management_error e])"
  by (auto simp: check_position_management_def position_management_try_def get_float_def
      split: option.splits)

theorem non_numeric_tick_is_discarded_witness:
  "tick_p bad_price_tick = Some BadString \<and> py_float BadString = Inl ValueError \<and>
   active_signal armed_state \<noteq> None \<and>
   check_position_management scenario_config armed_state bad_price_tick 120000000 =
     (armed_state, [], [Log_management_error ValueError])"
proof -
  have h: "tick_p bad_price_tick = Some BadString \<and> py_float BadString = Inl ValueError"
    by (simp add: bad_price_tick_def py_float_def)
  have a: "active_signal armed_state \<noteq> None"
    by (simp add: armed_state_eq)
  show ?thesis
    using h a non_numeric_tick_is_discarded [of bad_price_tick BadString ValueError
        scenario_config armed_state 120000000]
    by simp
qed

text \<open>
  C7. Malformed ticks are to be harmless: logged and discarded, with no exception, no change
  to the position or to \<open>seq\<close> and no event. The code does this for a price that is not
  numeric (above), and misses the tick with no price entry: the default in
  \<open>tick_data.get("p", 0)\<close> is put in before \<open>float\<close> can raise, so the tick is handled as a
  price of 0. With the scenario's LONG position open (stop 100100) the call returns
  normally and closes the position on its stop at price 0: the position is cleared, \<open>seq\<close>
  goes up by one and a \<open>CLOSE\<close> event with pnl -100000 is broadcast.
\<close>

theorem missing_price_closes_position:
  "fst (check_position_management scenario_config armed_state no_price_tick 120000000) \<noteq> armed_state \<and>
   active_signal armed_state \<noteq> None \<and>
   active_signal (fst (check_position_management scenario_config armed_state no_price_tick 120000000)) = None \<and>
   state_sequence (fst (check_position_management scenario_config armed_state no_price_tick 120000000))
     = state_sequence armed_state + 1 \<and>
   map position (fst (snd (check_position_management scenario_config armed_state no_price_tick 120000000)))
     = [CLOSE] \<and>
   map event_data (fst (snd (check_position_management scenario_config armed_state no_price_tick 120000000)))
     = [Close_data LONG 100000 100100 0 (- 100000) (- 100)]"
  by (simp add: armed_state_eq no_price_tick_def ipc_defs scenario_defs Let_def)

section \<open>Properties of the test strategy\<close>

subsection \<open>Sequence numbers\<close>

lemma seqs_increase_mono:
  "seqs_increase sq m xs \<Longrightarrow> n \<le> m \<Longrightarrow> seqs_increase sq n xs"
  by (cases xs) (auto split: option.splits)

lemma t_update_seq:
  "t_state_sequence (t_update_strategy_state s) = t_state_sequence s + 1 \<and>
   t_seq_of (t_strategy_state (t_update_strategy_state s)) = Some (t_state_sequence s + 1)"
  by (simp add: t_update_strategy_state_def Let_def split: option.splits)

lemma update_seq:
  "state_sequence (update_strategy_state s) = state_sequence s + 1 \<and>
   seq_of (strategy_state (update_strategy_state s)) = Some (state_sequence s + 1)"
  by (simp add: update_strategy_state_def Let_def split: option.splits)

lemma window_keeps:
  "is_in_offline_window cfg s now = (b, s', logs) \<Longrightarrow>
     t_state_sequence s' = t_state_sequence s \<and> t_strategy_state s' = t_strategy_state s \<and>
     t_entry_time s' = t_entry_time s \<and> offline_frozen_state s' = offline_frozen_state s \<and>
     t_event_counter s' = t_event_counter s"
  by (auto simp: is_in_offline_window_def Let_def split: if_splits option.splits)

lemma enter_trade_seq:
  "enter_trade cfg s now = (s', evs, logs) \<Longrightarrow>
     t_state_sequence s' = t_state_sequence s + 1 \<and>
     (\<exists>e. evs = [e] \<and> t_seq_of (ev_strategy_state e) = Some (t_state_sequence s + 1))"
  by (auto simp: enter_trade_def Let_def t_mk_event_def t_update_strategy_state_def
      split: option.splits)

lemma reset_seq:
  "t_state_sequence (reset_strategy_state s) = t_state_sequence s + 1 \<and>
   t_strategy_state (reset_strategy_state s) = T_absent (t_state_sequence s + 1)"
  by (simp add: reset_strategy_state_def t_update_strategy_state_def Let_def)

lemma exit_outcome:
  "exit_trade_time_limit cfg s now = (s', evs, logs) \<Longrightarrow> t_outcome s s' evs"
  by (auto simp: exit_trade_time_limit_def t_outcome_def Let_def t_mk_event_def reset_seq
      split: option.splits if_splits)

lemma broadcast_seq:
  "broadcast_trailing_stop_update cfg s price rsn now = (s', evs, logs) \<Longrightarrow>
     t_state_sequence s' = t_state_sequence s + 1 \<and>
     (evs = [] \<or> (\<exists>e. evs = [e] \<and> t_seq_of (ev_strategy_state e) = Some (t_state_sequence s + 1)))"
proof -
  assume a: "broadcast_trailing_stop_update cfg s price rsn now = (s', evs, logs)"
  obtain b s2 l2 where w: "is_in_offline_window cfg (t_update_strategy_state s) now = (b, s2, l2)"
    by (cases "is_in_offline_window cfg (t_update_strategy_state s) now") auto
  from window_keeps [OF w] t_update_seq [of s]
  have k: "t_state_sequence s2 = t_state_sequence s + 1"
    "t_seq_of (t_strategy_state s2) = Some (t_state_sequence s + 1)"
    by simp_all
  from a w k show ?thesis
    by (auto simp: broadcast_trailing_stop_update_def Let_def t_mk_event_def split: if_splits)
qed

lemma t_trail_outcome:
  "t_trail cfg s price new_sl rsn now = (s', evs, logs) \<Longrightarrow> t_outcome s s' evs"
  by (auto simp: t_trail_def t_outcome_def split: prod.splits dest!: broadcast_seq)

lemma t_outcome_same: "t_state_sequence s' = t_state_sequence s \<Longrightarrow> t_outcome s s' []"
  by (simp add: t_outcome_def)

lemma check_trailing_stop_outcome:
  "check_trailing_stop cfg s price now = Inr (s', evs, logs) \<Longrightarrow> t_outcome s s' evs"
  unfolding check_trailing_stop_def
  by (auto split: if_splits option.splits intro: t_outcome_same dest: t_trail_outcome)

lemma t_outcome_current_price:
  "t_outcome (s\<lparr>current_price := c\<rparr>) s' evs = t_outcome s s' evs"
  by (simp add: t_outcome_def split: list.splits)

lemma process_tick_outcome:
  "process_tick cfg s tk now = (err, s', evs, logs) \<Longrightarrow> t_outcome s s' evs"
  unfolding process_tick_def Let_def
  by (auto split: sum.splits if_splits option.splits prod.splits
      intro!: t_outcome_same dest!: check_trailing_stop_outcome
      simp: t_outcome_current_price)

lemma get_keeps:
  "t_get_strategy_state cfg s now = (snap, s', logs) \<Longrightarrow>
     t_state_sequence s' = t_state_sequence s \<and> t_strategy_state s' = t_strategy_state s \<and>
     t_entry_time s' = t_entry_time s"
  unfolding t_get_strategy_state_def
  by (auto split: prod.splits if_splits option.splits dest!: window_keeps)

lemma test_step_outcome:
  "test_step cfg s i = (s', evs) \<Longrightarrow> t_outcome s s' evs"
  unfolding test_step_def
  by (cases i)
     (auto split: prod.splits dest!: enter_trade_seq process_tick_outcome exit_outcome get_keeps
        simp: t_outcome_def reset_seq)

lemma test_run_seqs_increase:
  "test_run cfg s ins = (s', evs) \<Longrightarrow>
     seqs_increase t_seq_of (t_state_sequence s) (map ev_strategy_state evs)"
proof (induction ins arbitrary: s s' evs)
  case Nil
  then show ?case by simp
next
  case (Cons i rest)
  obtain s1 ev1 where st: "test_step cfg s i = (s1, ev1)"
    by (cases "test_step cfg s i") auto
  obtain s2 ev2 where rn: "test_run cfg s1 rest = (s2, ev2)"
    by (cases "test_run cfg s1 rest") auto
  from Cons.prems st rn have evs: "evs = ev1 @ ev2" by simp
  have ih: "seqs_increase t_seq_of (t_state_sequence s1) (map ev_strategy_state ev2)"
    using Cons.IH [OF rn] .
  have o: "t_outcome s s1 ev1"
    using test_step_outcome [OF st] .
  have le: "t_state_sequence s \<le> t_state_sequence s1"
    using o by (auto simp: t_outcome_def)
  show ?case
  proof (cases ev1)
    case Nil
    then show ?thesis
      unfolding evs using seqs_increase_mono [OF ih le] by simp
  next
    case (Cons e es)
    with o have "es = []" and "t_seq_of (ev_strategy_state e) = Some (t_state_sequence s + 1)"
      and "t_state_sequence s1 = t_state_sequence s + 1"
      by (auto simp: t_outcome_def split: list.splits)
    with ih Cons show ?thesis
      unfolding evs by simp
  qed
qed

subsection \<open>The offline window\<close>

lemma offline_at_entry_time:
  "t_entry_time s' = t_entry_time s \<Longrightarrow> offline_at cfg s' now = offline_at cfg s now"
  by (simp add: offline_at_def is_in_offline_window_def Let_def split: option.splits)

lemma window_result:
  "is_in_offline_window cfg s now = (b, s', logs) \<Longrightarrow> b = offline_at cfg s now"
  by (simp add: offline_at_def)

lemma broadcast_keeps:
  "broadcast_trailing_stop_update cfg s price rsn now = (s', evs, logs) \<Longrightarrow>
     t_entry_time s' = t_entry_time s \<and> offline_frozen_state s' = offline_frozen_state s"
proof -
  assume a: "broadcast_trailing_stop_update cfg s price rsn now = (s', evs, logs)"
  obtain b s2 l2 where w: "is_in_offline_window cfg (t_update_strategy_state s) now = (b, s2, l2)"
    by (cases "is_in_offline_window cfg (t_update_strategy_state s) now") auto
  have "t_entry_time s2 = t_entry_time s \<and> offline_frozen_state s2 = offline_frozen_state s"
    using window_keeps [OF w] by (simp add: t_update_strategy_state_def Let_def)
  with a w show ?thesis
    by (auto simp: broadcast_trailing_stop_update_def Let_def split: if_splits)
qed

lemma t_trail_keeps:
  "t_trail cfg s price new_sl rsn now = (s', evs, logs) \<Longrightarrow>
     t_entry_time s' = t_entry_time s \<and> offline_frozen_state s' = offline_frozen_state s"
  by (auto simp: t_trail_def split: prod.splits dest!: broadcast_keeps)

lemma check_trailing_stop_keeps:
  "check_trailing_stop cfg s price now = Inr (s', evs, logs) \<Longrightarrow>
     t_entry_time s' = t_entry_time s \<and> offline_frozen_state s' = offline_frozen_state s"
  unfolding check_trailing_stop_def
  by (auto split: if_splits option.splits dest: t_trail_keeps)

lemma process_tick_keeps:
  "process_tick cfg s tk now = (err, s', evs, logs) \<Longrightarrow>
     t_entry_time s' = t_entry_time s \<and> offline_frozen_state s' = offline_frozen_state s"
  unfolding process_tick_def Let_def
  by (auto split: sum.splits if_splits option.splits prod.splits
      dest!: check_trailing_stop_keeps)

lemma get_first:
  assumes "offline_at cfg s now" and "offline_frozen_state s = None"
  shows "fst (t_get_strategy_state cfg s now) = t_strategy_state s \<and>
         offline_frozen_state (fst (snd (t_get_strategy_state cfg s now)))
           = Some (t_strategy_state s)"
proof -
  obtain b s1 l1 where w: "is_in_offline_window cfg s now = (b, s1, l1)"
    by (cases "is_in_offline_window cfg s now") auto
  from window_result [OF w] assms(1) have b by simp
  with w window_keeps [OF w] assms(2) show ?thesis
    by (simp add: t_get_strategy_state_def)
qed

lemma get_frozen:
  assumes "offline_at cfg s now" and "offline_frozen_state s = Some f"
  shows "fst (t_get_strategy_state cfg s now) = f \<and>
         offline_frozen_state (fst (snd (t_get_strategy_state cfg s now))) = Some f"
proof -
  obtain b s1 l1 where w: "is_in_offline_window cfg s now = (b, s1, l1)"
    by (cases "is_in_offline_window cfg s now") auto
  from window_result [OF w] assms(1) have b by simp
  with w window_keeps [OF w] assms(2) show ?thesis
    by (simp add: t_get_strategy_state_def)
qed

lemma get_live:
  assumes "\<not> offline_at cfg s now"
  shows "fst (t_get_strategy_state cfg s now) = t_strategy_state s \<and>
         offline_frozen_state (fst (snd (t_get_strategy_state cfg s now))) = None"
proof -
  obtain b s1 l1 where w: "is_in_offline_window cfg s now = (b, s1, l1)"
    by (cases "is_in_offline_window cfg s now") auto
  from window_result [OF w] assms(1) have "\<not> b" by simp
  with w window_keeps [OF w] show ?thesis
    by (auto simp: t_get_strategy_state_def)
qed

lemma observe_frozen:
  "offline_frozen_state s = Some f \<Longrightarrow>
   \<forall>c \<in> set calls. offline_at cfg s (call_time c) \<Longrightarrow>
   \<forall>x \<in> set (observe cfg s calls). x = f"
proof (induction calls arbitrary: s)
  case Nil
  then show ?case by simp
next
  case (Cons c rest)
  show ?case
  proof (cases c)
    case (W_tick tk now)
    obtain err s1 evs logs where p: "process_tick cfg s tk now = (err, s1, evs, logs)"
      by (cases "process_tick cfg s tk now") auto
    from process_tick_keeps [OF p] have et: "t_entry_time s1 = t_entry_time s"
      and fr: "offline_frozen_state s1 = offline_frozen_state s" by simp_all
    have k: "offline_frozen_state s1 = Some f"
      using fr Cons.prems(1) by simp
    have w: "\<forall>c \<in> set rest. offline_at cfg s1 (call_time c)"
      using Cons.prems(2) offline_at_entry_time [OF et, of cfg] by simp
    from Cons.IH [OF k w] W_tick p show ?thesis by simp
  next
    case (W_get now)
    obtain snap s1 logs where g: "t_get_strategy_state cfg s now = (snap, s1, logs)"
      by (cases "t_get_strategy_state cfg s now") auto
    have off: "offline_at cfg s now" using Cons.prems(2) W_get by simp
    from get_frozen [OF off Cons.prems(1)] g
    have snap: "snap = f" and k: "offline_frozen_state s1 = Some f" by simp_all
    from get_keeps [OF g] have et: "t_entry_time s1 = t_entry_time s" by simp
    have w: "\<forall>c \<in> set rest. offline_at cfg s1 (call_time c)"
      using Cons.prems(2) offline_at_entry_time [OF et, of cfg] by simp
    from Cons.IH [OF k w] W_get g snap show ?thesis by simp
  qed
qed

lemma entered_eq:
  "entered =
     \<lparr>t_event_counter = 1, t_entry_time = Some 0, t_entry_price = Some 100000,
      current_price = Some 100000, stop_loss_price = Some 98000,
      target_price = Some 102000, t_trailing_activation_price = Some 101000,
      t_trailing_stop_active = False, t_peak_price = Some 100000,
      t_strategy_state = T_full (Some 98000) (Some 102000) 100000 (Some 101000) False 1,
      t_state_sequence = 1, offline_frozen_state = None,
      logged_offline_start = False, logged_suppression = False\<rparr>"
  by (simp add: entered_def test_step_def process_tick_def tick_update_def py_float_def
      price_tick_def test_init_def enter_trade_def test_config0_def t_update_strategy_state_def
      Let_def)

lemma advanced_eq:
  "advanced =
     \<lparr>t_event_counter = 1, t_entry_time = Some 0, t_entry_price = Some 100000,
      current_price = Some 101000, stop_loss_price = Some 100100,
      target_price = Some 102000, t_trailing_activation_price = Some 101000,
      t_trailing_stop_active = True, t_peak_price = Some 101000,
      t_strategy_state = T_full (Some 100100) (Some 102000) 100000 (Some 101000) True 2,
      t_state_sequence = 2, offline_frozen_state = None,
      logged_offline_start = True, logged_suppression = False\<rparr>"
  by (simp add: advanced_def entered_eq test_step_def process_tick_def tick_update_def
      py_float_def price_tick_def check_trailing_stop_def falsy_def t_trail_def
      broadcast_trailing_stop_update_def is_in_offline_window_def test_config0_def
      t_update_strategy_state_def Let_def)

lemma frozen_eq:
  "frozen = advanced\<lparr>offline_frozen_state := Some (t_strategy_state advanced)\<rparr>"
  by (simp add: frozen_def advanced_eq t_get_strategy_state_def is_in_offline_window_def
      test_config0_def Let_def)

lemma later_eq:
  "later =
     \<lparr>t_event_counter = 1, t_entry_time = Some 0, t_entry_price = Some 100000,
      current_price = Some 102000, stop_loss_price = Some 101100,
      target_price = Some 102000, t_trailing_activation_price = Some 101000,
      t_trailing_stop_active = True, t_peak_price = Some 102000,
      t_strategy_state = T_full (Some 101100) (Some 102000) 100000 (Some 101000) True 3,
      t_state_sequence = 3,
      offline_frozen_state =
        Some (T_full (Some 100100) (Some 102000) 100000 (Some 101000) True 2),
      logged_offline_start = True, logged_suppression = False\<rparr>"
  by (simp add: later_def frozen_eq advanced_eq process_tick_def tick_update_def
      py_float_def price_tick_def check_trailing_stop_def falsy_def t_trail_def
      broadcast_trailing_stop_update_def is_in_offline_window_def test_config0_def
      t_update_strategy_state_def Let_def)

subsection \<open>Sequence numbers of both strategies, and the frozen snapshot\<close>

text \<open>
  C2, as amended. \<open>_update_strategy_state\<close>, in both strategies, raises \<open>seq\<close> by exactly
  one and stamps the new snapshot with it. Every call of the IPC strategy either leaves the
  state as it was or raises \<open>seq\<close> by exactly one; in the test strategy the entry, a
  trailing activation or update, a performed exit and a reset each raise it by exactly one.
  So in the events of any run of either strategy, from any state, every snapshot is stamped
  and each stamp is greater than the one before it (and than the \<open>seq\<close> the run started
  from). A heartbeat sends the current snapshot again and stamps nothing: over all the
  snapshots the IPC server publishes from its start, events and heartbeats together, the
  \<open>seq\<close> never goes down, and it repeats from one heartbeat to the next.
\<close>

theorem sequence_numbers_increase:
  "state_sequence (update_strategy_state s) = state_sequence s + 1 \<and>
   seq_of (strategy_state (update_strategy_state s)) = Some (state_sequence s + 1) \<and>
   t_state_sequence (t_update_strategy_state ts) = t_state_sequence ts + 1 \<and>
   t_seq_of (t_strategy_state (t_update_strategy_state ts)) = Some (t_state_sequence ts + 1) \<and>
   (fst (step tz cfg s i) = s \<or>
    state_sequence (fst (step tz cfg s i)) = state_sequence s + 1) \<and>
   t_state_sequence (fst (enter_trade tcfg ts now)) = t_state_sequence ts + 1 \<and>
   t_state_sequence (fst (broadcast_trailing_stop_update tcfg ts price rsn now))
     = t_state_sequence ts + 1 \<and>
   (fst (exit_trade_time_limit tcfg ts now) = ts \<or>
    t_state_sequence (fst (exit_trade_time_limit tcfg ts now)) = t_state_sequence ts + 1) \<and>
   t_state_sequence (reset_strategy_state ts) = t_state_sequence ts + 1 \<and>
   seqs_increase seq_of (state_sequence s0) (map ev_strategy_state (snd (run tz cfg s0 ins))) \<and>
   seqs_increase t_seq_of (t_state_sequence ts0)
     (map ev_strategy_state (snd (test_run tcfg ts0 tins))) \<and>
   get_strategy_state s = strategy_state s \<and>
   seqs_nondecrease seq_of 0 (published tz cfg init_state sins)"
proof (intro conjI)
  show "state_sequence (update_strategy_state s) = state_sequence s + 1"
    and "seq_of (strategy_state (update_strategy_state s)) = Some (state_sequence s + 1)"
    using update_seq [of s] by simp_all
  show "t_state_sequence (t_update_strategy_state ts) = t_state_sequence ts + 1"
    and "t_seq_of (t_strategy_state (t_update_strategy_state ts)) = Some (t_state_sequence ts + 1)"
    using t_update_seq [of ts] by simp_all
  show "fst (step tz cfg s i) = s \<or>
        state_sequence (fst (step tz cfg s i)) = state_sequence s + 1"
    using step_outcome_step [of s tz cfg i]
    by (cases "step tz cfg s i") (auto simp: step_outcome_def stamped_def)
  show "t_state_sequence (fst (enter_trade tcfg ts now)) = t_state_sequence ts + 1"
    using enter_trade_seq [of tcfg ts now] by (cases "enter_trade tcfg ts now") simp
  show "t_state_sequence (fst (broadcast_trailing_stop_update tcfg ts price rsn now))
          = t_state_sequence ts + 1"
    using broadcast_seq [of tcfg ts price rsn now]
    by (cases "broadcast_trailing_stop_update tcfg ts price rsn now") simp
  show "fst (exit_trade_time_limit tcfg ts now) = ts \<or>
        t_state_sequence (fst (exit_trade_time_limit tcfg ts now)) = t_state_sequence ts + 1"
    by (auto simp: exit_trade_time_limit_def Let_def reset_seq split: option.splits)
  show "t_state_sequence (reset_strategy_state ts) = t_state_sequence ts + 1"
    by (simp add: reset_seq)
  show "seqs_increase seq_of (state_sequence s0)
          (map ev_strategy_state (snd (run tz cfg s0 ins)))"
    using run_seqs_increase [of tz cfg s0 ins "fst (run tz cfg s0 ins)" "snd (run tz cfg s0 ins)"]
    by simp
  show "seqs_increase t_seq_of (t_state_sequence ts0)
          (map ev_strategy_state (snd (test_run tcfg ts0 tins)))"
    using test_run_seqs_increase [of tcfg ts0 tins "fst (test_run tcfg ts0 tins)"
        "snd (test_run tcfg ts0 tins)"]
    by simp
  show "get_strategy_state s = strategy_state s"
    by (simp add: get_strategy_state_def)
  show "seqs_nondecrease seq_of 0 (published tz cfg init_state sins)"
    using published_nondecrease [of init_state tz cfg sins]
    by (simp add: stamp_ok_def init_state_def)
qed

text \<open>
  C2, as stated, fails once heartbeats are counted among the published snapshots. From the
  start of the process: a heartbeat carries the empty state, with no \<open>seq\<close> at all; the
  scenario's prediction opens a position (seq 1); the two heartbeats after it both carry
  seq 1 again. The snapshots sent after the start are not strictly increasing.
\<close>

theorem heartbeats_repeat_seq:
  "published est scenario_config init_state
     [Heartbeat_in, Strategy_in (Prediction_in (scenario_prediction 0) (price_tick 100000) 0),
      Heartbeat_in, Heartbeat_in]
   = [Unstamped, Full 98000 100700 100000 101000 False 1,
      Full 98000 100700 100000 101000 False 1, Full 98000 100700 100000 101000 False 1] \<and>
   map seq_of (published est scenario_config init_state
     [Heartbeat_in, Strategy_in (Prediction_in (scenario_prediction 0) (price_tick 100000) 0),
      Heartbeat_in, Heartbeat_in])
   = [None, Some 1, Some 1, Some 1] \<and>
   \<not> seqs_increase seq_of 0 (published est scenario_config init_state
     [Strategy_in (Prediction_in (scenario_prediction 0) (price_tick 100000) 0),
      Heartbeat_in, Heartbeat_in])"
  by (simp add: step_def get_strategy_state_def ipc_defs scenario_defs Let_def)

text \<open>
  What \<open>get_strategy_state\<close> of the test strategy does. Inside the offline window, the
  first request for the current state returns the state as it is at that request and keeps
  it; every later request inside the window returns that same snapshot, whatever ticks are
  processed in between (they advance the live state and \<open>seq\<close>, and leave the kept snapshot
  alone). A request outside the window returns the live state and drops the kept snapshot.
\<close>

theorem offline_snapshot_frozen_at_first_request:
  "(offline_at cfg s now \<and> offline_frozen_state s = None \<longrightarrow>
      fst (t_get_strategy_state cfg s now) = t_strategy_state s \<and>
      (\<forall>calls. (\<forall>c \<in> set calls. offline_at cfg s (call_time c)) \<longrightarrow>
         (\<forall>x \<in> set (observe cfg (fst (snd (t_get_strategy_state cfg s now))) calls).
            x = t_strategy_state s))) \<and>
   (offline_at cfg s now \<and> offline_frozen_state s = Some f \<longrightarrow>
      fst (t_get_strategy_state cfg s now) = f \<and>
      offline_frozen_state (fst (snd (t_get_strategy_state cfg s now))) = Some f) \<and>
   offline_frozen_state (fst (snd (process_tick cfg s tk now))) = offline_frozen_state s \<and>
   (\<not> offline_at cfg s now \<longrightarrow>
      fst (t_get_strategy_state cfg s now) = t_strategy_state s \<and>
      offline_frozen_state (fst (snd (t_get_strategy_state cfg s now))) = None)"
proof (intro conjI impI allI)
  assume h: "offline_at cfg s now \<and> offline_frozen_state s = None"
  then show "fst (t_get_strategy_state cfg s now) = t_strategy_state s"
    using get_first by blast
next
  fix calls
  assume h: "offline_at cfg s now \<and> offline_frozen_state s = None"
    and w: "\<forall>c \<in> set calls. offline_at cfg s (call_time c)"
  obtain snap s1 logs where g: "t_get_strategy_state cfg s now = (snap, s1, logs)"
    by (cases "t_get_strategy_state cfg s now") auto
  from h get_first [of cfg s now] g
  have k: "offline_frozen_state s1 = Some (t_strategy_state s)" by simp
  from get_keeps [OF g] have et: "t_entry_time s1 = t_entry_time s" by simp
  have w1: "\<forall>c \<in> set calls. offline_at cfg s1 (call_time c)"
    using w offline_at_entry_time [OF et, of cfg] by simp
  from observe_frozen [OF k w1] g
  show "\<forall>x \<in> set (observe cfg (fst (snd (t_get_strategy_state cfg s now))) calls).
          x = t_strategy_state s"
    by simp
next
  assume h: "offline_at cfg s now \<and> offline_frozen_state s = Some f"
  then show "fst (t_get_strategy_state cfg s now) = f"
    and "offline_frozen_state (fst (snd (t_get_strategy_state cfg s now))) = Some f"
    using get_frozen by blast+
next
  obtain err s1 evs logs where p: "process_tick cfg s tk now = (err, s1, evs, logs)"
    by (cases "process_tick cfg s tk now") auto
  from process_tick_keeps [OF p] p
  show "offline_frozen_state (fst (snd (process_tick cfg s tk now))) = offline_frozen_state s"
    by simp
next
  assume h: "\<not> offline_at cfg s now"
  then show "fst (t_get_strategy_state cfg s now) = t_strategy_state s"
    and "offline_frozen_state (fst (snd (t_get_strategy_state cfg s now))) = None"
    using get_live by blast+
qed

theorem offline_snapshot_frozen_at_first_request_witness:
  "offline_at test_config0 advanced 12000000 \<and> offline_frozen_state advanced = None \<and>
   fst (t_get_strategy_state test_config0 advanced 12000000) = t_strategy_state advanced \<and>
   observe test_config0 frozen [W_tick (price_tick 102000) 13000000, W_get 14000000]
     = [t_strategy_state advanced] \<and>
   t_state_sequence advanced = 2 \<and> t_state_sequence later = 3 \<and>
   offline_at test_config0 later 14000000 \<and>
   offline_frozen_state later = Some (t_strategy_state advanced) \<and>
   fst (t_get_strategy_state test_config0 later 14000000) = t_strategy_state advanced \<and>
   \<not> offline_at test_config0 later 21000000 \<and>
   fst (t_get_strategy_state test_config0 later 21000000) = t_strategy_state later"
proof -
  have o1: "offline_at test_config0 advanced 12000000"
    by (simp add: advanced_eq offline_at_def is_in_offline_window_def test_config0_def Let_def)
  have f1: "offline_frozen_state advanced = None"
    by (simp add: advanced_eq)
  have w: "\<forall>c \<in> set [W_tick (price_tick 102000) 13000000, W_get 14000000].
             offline_at test_config0 advanced (call_time c)"
    by (simp add: advanced_eq offline_at_def is_in_offline_window_def test_config0_def Let_def)
  note t1 = offline_snapshot_frozen_at_first_request [of test_config0 advanced 12000000]
  from t1 o1 f1
  have c1: "fst (t_get_strategy_state test_config0 advanced 12000000) = t_strategy_state advanced"
    by blast
  from t1 o1 f1
  have "\<forall>calls. (\<forall>c \<in> set calls. offline_at test_config0 advanced (call_time c)) \<longrightarrow>
          (\<forall>x \<in> set (observe test_config0
                          (fst (snd (t_get_strategy_state test_config0 advanced 12000000)))
                          calls).
             x = t_strategy_state advanced)"
    by blast
  with w
  have c2: "\<forall>x \<in> set (observe test_config0 frozen
                          [W_tick (price_tick 102000) 13000000, W_get 14000000]).
              x = t_strategy_state advanced"
    unfolding frozen_def by blast
  have o2: "offline_at test_config0 later 14000000"
    by (simp add: later_eq offline_at_def is_in_offline_window_def test_config0_def Let_def)
  have f2: "offline_frozen_state later = Some (t_strategy_state advanced)"
    by (simp add: later_eq advanced_eq)
  from offline_snapshot_frozen_at_first_request
         [of test_config0 later 14000000 "t_strategy_state advanced"] o2 f2
  have c3: "fst (t_get_strategy_state test_config0 later 14000000) = t_strategy_state advanced"
    by blast
  have o3: "\<not> offline_at test_config0 later 21000000"
    by (simp add: later_eq offline_at_def is_in_offline_window_def test_config0_def Let_def)
  from offline_snapshot_frozen_at_first_request [of test_config0 later 21000000] o3
  have c4: "fst (t_get_strategy_state test_config0 later 21000000) = t_strategy_state later"
    by blast
  have q: "t_state_sequence advanced = 2" "t_state_sequence later = 3"
    by (simp_all add: advanced_eq later_eq)
  obtain e l where p: "process_tick test_config0 frozen (price_tick 102000) 13000000
                         = (e, later, l)"
    by (cases "process_tick test_config0 frozen (price_tick 102000) 13000000")
       (simp add: later_def)
  obtain sn s1 l1 where g: "t_get_strategy_state test_config0 later 14000000 = (sn, s1, l1)"
    by (cases "t_get_strategy_state test_config0 later 14000000") auto
  have "observe test_config0 frozen [W_tick (price_tick 102000) 13000000, W_get 14000000]
          = [sn]"
    using p g by simp
  moreover have "sn = t_strategy_state advanced"
    using c3 g by simp
  ultimately have c5: "observe test_config0 frozen
                   [W_tick (price_tick 102000) 13000000, W_get 14000000]
                 = [t_strategy_state advanced]"
    by simp
  show ?thesis
    using o1 f1 c1 c5 q o2 f2 c3 o3 c4 by blast
qed


end
